theory Spec2Isabelle
  imports Complex_Main "HOL-Library.Sublist"
begin

section \<open>CampuSupport: ticket lifecycle, authorization, classification and reporting\<close>

text \<open>
  A shallow embedding of the ticket service (\<^verbatim>\<open>app/main.py\<close>, \<^verbatim>\<open>app/models.py\<close>,
  \<^verbatim>\<open>app/schemas.py\<close>) and of the agent's keyword heuristics
  (\<^verbatim>\<open>agent_service/main.py\<close>). Every request handler is a function from the database
  and the request to either the exception it raises or its response together with the
  committed database. A handler that raises commits nothing.
\<close>

subsection \<open>Data model (\<^verbatim>\<open>models.py\<close>)\<close>

datatype RoleEnum = student | support | department | admin

text \<open>
  The status values \<^verbatim>\<open>open\<close> and \<^verbatim>\<open>closed\<close> carry the prefix \<open>ticket_\<close>: the plain names
  are constants of the topology library.
\<close>

datatype TicketStatus = ticket_open | in_progress | resolved | ticket_closed

datatype TicketPriority = low | medium | high

text \<open>
  A \<^verbatim>\<open>datetime\<close> is its number of microseconds since the epoch (the resolution of the
  Python type); a \<^verbatim>\<open>date\<close> is its day number.
\<close>

type_synonym datetime = int

type_synonym date = int

definition date_of :: "datetime \<Rightarrow> date" where
  "date_of d = d div 86400000000"

record Department =
  dept_id :: int
  dept_name :: string
  dept_description :: "string option"

record User =
  user_id :: int
  email :: string
  full_name :: "string option"
  hashed_password :: string
  role :: RoleEnum
  user_department_id :: "int option"
  is_active :: bool

text \<open>
  \<^verbatim>\<open>created_at\<close> and \<^verbatim>\<open>updated_at\<close> are filled by their column defaults at insertion and
  are required fields of the response schema, so they are plain datetimes here; the four
  event stamps are nullable.
\<close>

record Ticket =
  ticket_id :: int
  title :: string
  description :: string
  category :: "string option"
  assigned_unit :: "string option"
  priority :: TicketPriority
  status :: TicketStatus
  department_id :: int
  created_by_id :: int
  assigned_to_id :: "int option"
  created_at :: datetime
  updated_at :: datetime
  first_response_at :: "datetime option"
  resolved_at :: "datetime option"
  closed_at :: "datetime option"
  assigned_at :: "datetime option"

record Comment =
  comment_id :: int
  comment_ticket_id :: int
  author_id :: int
  content :: string
  comment_created_at :: datetime

text \<open>The relational store: one list of rows per table, looked up by primary key.\<close>

record database =
  departments :: "Department list"
  users :: "User list"
  tickets :: "Ticket list"
  comments :: "Comment list"

text \<open>
  \<^verbatim>\<open>HTTPException(status_code, detail)\<close>. The specification's error names are status
  codes: \<open>NotFound\<close> is 404, \<open>Forbidden\<close> is 403, \<open>Unauthorized\<close> is 401, and both
  \<open>InvalidState\<close> and \<open>InvalidAssignment\<close> are 400 with the details the handlers give.
\<close>

datatype http_error = HTTPException (status_code: nat) (detail: string)

text \<open>
  What a handler can raise: an \<^verbatim>\<open>HTTPException\<close>; the \<^verbatim>\<open>IntegrityError\<close> of a commit that
  stores \<^verbatim>\<open>NULL\<close> in a \<^verbatim>\<open>nullable=False\<close> column; or the \<^verbatim>\<open>OverflowError\<close> of a key that
  does not fit the store's integer column, or of a date past the last day of the calendar.
  The last two are not caught by the handlers: \<^verbatim>\<open>unhandled_exception_handler\<close> answers
  them with status 500.
\<close>

datatype failure = Raised http_error | IntegrityError | OverflowError

abbreviation http :: "nat \<Rightarrow> string \<Rightarrow> failure + 'a" where
  "http code msg \<equiv> Inl (Raised (HTTPException code msg))"

subsection \<open>Keyword classification (\<^verbatim>\<open>simple_priority_guess\<close>, \<^verbatim>\<open>heuristic_priority\<close>, ...)\<close>

text \<open>
  Python's \<^verbatim>\<open>k in lowered\<close> on strings is the contiguous-substring test, \<^const>\<open>sublist\<close>.
  \<^verbatim>\<open>str.lower\<close> follows the Unicode case tables of the runtime; the heuristics take it as
  the parameter \<open>str_lower\<close>, and \<open>ascii_lower\<close> is its restriction to ASCII letters,
  used to run the functions on concrete texts.
\<close>

definition ascii_lower_char :: "char \<Rightarrow> char" where
  "ascii_lower_char c =
     (let n = (of_char c :: nat) in if 65 \<le> n \<and> n \<le> 90 then char_of (n + 32) else c)"

definition ascii_lower :: "string \<Rightarrow> string" where
  "ascii_lower s = map ascii_lower_char s"

definition any_in :: "string list \<Rightarrow> string \<Rightarrow> bool" where
  "any_in ks lowered = list_ex (\<lambda>k. sublist k lowered) ks"

definition urgency_keywords :: "string list" where
  "urgency_keywords = [''acil'', ''urgent'', ''kopuyor'', ''kilit'', ''down'', ''calismiyor'']"

definition delay_keywords :: "string list" where
  "delay_keywords = [''yavas'', ''gecik'', ''slow'']"

definition simple_priority_guess :: "(string \<Rightarrow> string) \<Rightarrow> string \<Rightarrow> TicketPriority" where
  "simple_priority_guess str_lower text' =
     (let lowered = str_lower text' in
      if any_in [''acil'', ''urgent'', ''kopuyor'', ''kilit'', ''down'', ''calismiyor''] lowered
      then high
      else if any_in [''yavas'', ''gecik'', ''slow''] lowered then medium
      else low)"

definition simple_category_guess :: "(string \<Rightarrow> string) \<Rightarrow> string \<Rightarrow> string" where
  "simple_category_guess str_lower text' =
     (let lowered = str_lower text' in
      if any_in [''wifi'', ''internet'', ''lms'', ''vpn'', ''modem''] lowered then ''Internet''
      else if any_in [''projeksiyon'', ''monitor'', ''ekran'', ''donanim'', ''bilgisayar'', ''lab'']
                lowered
      then ''Donanim''
      else if any_in [''randevu'', ''danisman'', ''kayit'', ''transkript'', ''ogrenci''] lowered
      then ''Ogrenci Islemleri''
      else ''Genel'')"

text \<open>The agent service's copies return the priority as a string.\<close>

definition heuristic_priority :: "(string \<Rightarrow> string) \<Rightarrow> string \<Rightarrow> string" where
  "heuristic_priority str_lower text' =
     (let lowered = str_lower text' in
      if any_in [''acil'', ''urgent'', ''kopuyor'', ''kilit'', ''down'', ''calismiyor''] lowered
      then ''high''
      else if any_in [''yavas'', ''gecik'', ''slow''] lowered then ''medium''
      else ''low'')"

definition heuristic_category :: "(string \<Rightarrow> string) \<Rightarrow> string \<Rightarrow> string" where
  "heuristic_category str_lower text' =
     (let lowered = str_lower text' in
      if any_in [''wifi'', ''internet'', ''lms'', ''vpn'', ''modem''] lowered then ''Internet''
      else if any_in [''projeksiyon'', ''monitor'', ''ekran'', ''donanim'', ''bilgisayar'', ''lab'']
                lowered
      then ''Donanim''
      else if any_in [''randevu'', ''danisman'', ''kayit'', ''transkript'', ''ogrenci''] lowered
      then ''Ogrenci Islemleri''
      else ''Genel'')"

text \<open>The value of a \<^verbatim>\<open>TicketPriority\<close> member (the enum derives from \<^verbatim>\<open>str\<close>).\<close>

fun priority_value :: "TicketPriority \<Rightarrow> string" where
  "priority_value low = ''low''"
| "priority_value medium = ''medium''"
| "priority_value high = ''high''"

text \<open>A keyword occurs in a text when the text is some prefix, the keyword, some suffix.\<close>

definition occurs_in :: "string \<Rightarrow> string \<Rightarrow> bool" where
  "occurs_in k s = (\<exists>pre post. s = pre @ k @ post)"

subsection \<open>The store and the ORM session\<close>

text \<open>
  A path or body parameter declared \<^verbatim>\<open>int\<close> is a Python integer of any size; the store
  (SQLite, the configured default) keeps keys as signed 64-bit integers. Binding a key
  outside that range to the query raises \<^verbatim>\<open>OverflowError\<close>.
\<close>

definition int64 :: "int \<Rightarrow> bool" where
  "int64 k = (- 9223372036854775808 \<le> k \<and> k \<le> 9223372036854775807)"

text \<open>
  \<^verbatim>\<open>db.get(Model, key)\<close>: the row with that primary key or \<^verbatim>\<open>None\<close>, for a key the store
  can hold.
\<close>

definition db_get :: "('r \<Rightarrow> int) \<Rightarrow> 'r list \<Rightarrow> int \<Rightarrow> failure + 'r option" where
  "db_get pk rows k = (if int64 k then Inr (find (\<lambda>r. pk r = k) rows) else Inl OverflowError)"

definition db_get_ticket :: "database \<Rightarrow> int \<Rightarrow> failure + Ticket option" where
  "db_get_ticket db tid = db_get ticket_id (tickets db) tid"

definition db_get_user :: "database \<Rightarrow> int \<Rightarrow> failure + User option" where
  "db_get_user db uid = db_get user_id (users db) uid"

definition db_get_department :: "database \<Rightarrow> int \<Rightarrow> failure + Department option" where
  "db_get_department db did = db_get dept_id (departments db) did"

text \<open>
  \<^verbatim>\<open>updated_at = Column(DateTime, default=datetime.utcnow, onupdate=datetime.utcnow)\<close>.
  On \<^verbatim>\<open>db.commit()\<close> the session compares the loaded row \<open>old\<close> with the object \<open>new\<close>
  the handler has assigned to. When no column differs no \<^verbatim>\<open>UPDATE\<close> is sent. Otherwise
  the \<^verbatim>\<open>UPDATE\<close> sets the columns that differ, and \<^verbatim>\<open>updated_at\<close>, when it is not among
  them, gets its \<^verbatim>\<open>onupdate\<close> value: the clock reading \<open>now_db\<close> taken while flushing.
\<close>

definition orm_flush :: "datetime \<Rightarrow> Ticket \<Rightarrow> Ticket \<Rightarrow> Ticket" where
  "orm_flush now_db old new =
     (if new = old then new
      else if updated_at new = updated_at old then new\<lparr>updated_at := now_db\<rparr>
      else new)"

definition db_update_ticket :: "database \<Rightarrow> Ticket \<Rightarrow> database" where
  "db_update_ticket db row =
     db\<lparr>tickets := map (\<lambda>t. if ticket_id t = ticket_id row then row else t) (tickets db)\<rparr>"

text \<open>
  \<^verbatim>\<open>db.commit(); db.refresh(ticket)\<close>: the row as stored, and the database holding it.
\<close>

definition commit_ticket :: "database \<Rightarrow> datetime \<Rightarrow> Ticket \<Rightarrow> Ticket \<Rightarrow> Ticket \<times> database" where
  "commit_ticket db now_db old new =
     (let row = orm_flush now_db old new in (row, db_update_ticket db row))"

text \<open>
  What a request leaves in the store: the committed database of a response, and the
  database it started from when the handler raised.
\<close>

definition db_after :: "database \<Rightarrow> 'e + ('a \<times> database) \<Rightarrow> database" where
  "db_after db r = (case r of Inl e \<Rightarrow> db | Inr (x, db') \<Rightarrow> db')"

text \<open>What the client receives: the exception, or the body of the response.\<close>

definition response :: "'e + ('a \<times> database) \<Rightarrow> 'e + 'a" where
  "response r = (case r of Inl e \<Rightarrow> Inl e | Inr (x, db') \<Rightarrow> Inr x)"

subsection \<open>Request bodies (\<^verbatim>\<open>schemas.py\<close>)\<close>

record TicketCreate =
  create_title :: string
  create_description :: string
  create_department_id :: int
  create_priority :: TicketPriority
  create_category :: "string option"
  create_assigned_unit :: "string option"

text \<open>
  Every field of \<^verbatim>\<open>TicketUpdate\<close> and \<^verbatim>\<open>AgentUpdate\<close> is optional and the handlers read
  them with \<^verbatim>\<open>model_dump(exclude_unset=True)\<close>: a field is absent from the request
  (\<open>None\<close>), sent as \<^verbatim>\<open>null\<close> (\<open>Some None\<close>) or sent with a value (\<open>Some (Some v)\<close>).
\<close>

record TicketUpdate =
  set_title :: "string option option"
  set_description :: "string option option"
  set_priority :: "TicketPriority option option"
  set_category :: "string option option"
  set_assigned_unit :: "string option option"

record AgentUpdate =
  agent_priority :: "TicketPriority option option"
  agent_category :: "string option option"
  agent_assigned_unit :: "string option option"
  agent_message :: "string option"

subsection \<open>Authorization helper\<close>

definition ensure_ticket_visibility :: "Ticket \<Rightarrow> User \<Rightarrow> failure option" where
  "ensure_ticket_visibility ticket user =
     (if role user = admin then None
      else if created_by_id ticket = user_id user then None
      else if role user \<in> {department, support}
              \<and> user_department_id user = Some (department_id ticket) then None
      else Some (Raised (HTTPException 403 ''You cannot view this ticket'')))"

subsection \<open>Ticket handlers (\<^verbatim>\<open>app/main.py\<close>)\<close>

text \<open>
  Each handler takes the resolved \<^verbatim>\<open>current_user\<close> (the dependency
  \<^verbatim>\<open>get_current_active_user\<close> has already admitted it) and the readings of
  \<^verbatim>\<open>datetime.utcnow()\<close> it makes: \<open>now\<close> in the handler's body, \<open>now_db\<close> while the
  session flushes. A handler that answers with a ticket payload returns the ticket row
  the payload is built from. The primary key the store gives an inserted row is the
  parameter \<open>new_id\<close>.
\<close>

definition create_ticket ::
  "database \<Rightarrow> TicketCreate \<Rightarrow> User \<Rightarrow> int \<Rightarrow> datetime \<Rightarrow> datetime
     \<Rightarrow> failure + (Ticket \<times> database)" where
  "create_ticket db ticket_in current_user new_id now_created now_updated =
     (if role current_user = support then http 403 ''Support users cannot create tickets''
      else case db_get_department db (create_department_id ticket_in) of
        Inl e \<Rightarrow> Inl e
      | Inr None \<Rightarrow> http 404 ''Department not found''
      | Inr (Some dep) \<Rightarrow>
          let ticket = \<lparr>ticket_id = new_id,
                        title = create_title ticket_in,
                        description = create_description ticket_in,
                        category = create_category ticket_in,
                        assigned_unit = create_assigned_unit ticket_in,
                        priority = create_priority ticket_in,
                        status = ticket_open,
                        department_id = create_department_id ticket_in,
                        created_by_id = user_id current_user,
                        assigned_to_id = None,
                        created_at = now_created,
                        updated_at = now_updated,
                        first_response_at = None,
                        resolved_at = None,
                        closed_at = None,
                        assigned_at = None\<rparr>
          in Inr (ticket, db\<lparr>tickets := tickets db @ [ticket]\<rparr>))"

definition get_ticket :: "database \<Rightarrow> int \<Rightarrow> User \<Rightarrow> failure + (Ticket \<times> database)" where
  "get_ticket db tid current_user =
     (case db_get_ticket db tid of
        Inl e \<Rightarrow> Inl e
      | Inr None \<Rightarrow> http 404 ''Ticket not found''
      | Inr (Some ticket) \<Rightarrow>
          (case ensure_ticket_visibility ticket current_user of
             Some e \<Rightarrow> Inl e
           | None \<Rightarrow> Inr (ticket, db)))"

text \<open>\<^verbatim>\<open>for field, value in updates.items(): setattr(ticket, field, value)\<close>.\<close>

definition no_updates :: "TicketUpdate \<Rightarrow> bool" where
  "no_updates payload =
     (set_title payload = None \<and> set_description payload = None \<and> set_priority payload = None
      \<and> set_category payload = None \<and> set_assigned_unit payload = None)"

definition stores_null :: "TicketUpdate \<Rightarrow> bool" where
  "stores_null payload =
     (set_title payload = Some None \<or> set_description payload = Some None
      \<or> set_priority payload = Some None)"

definition setattrs :: "TicketUpdate \<Rightarrow> Ticket \<Rightarrow> Ticket" where
  "setattrs payload ticket =
     ticket\<lparr>title := (case set_title payload of Some (Some v) \<Rightarrow> v | _ \<Rightarrow> title ticket),
            description :=
              (case set_description payload of Some (Some v) \<Rightarrow> v | _ \<Rightarrow> description ticket),
            priority := (case set_priority payload of Some (Some v) \<Rightarrow> v | _ \<Rightarrow> priority ticket),
            category := (case set_category payload of Some v \<Rightarrow> v | None \<Rightarrow> category ticket),
            assigned_unit :=
              (case set_assigned_unit payload of Some v \<Rightarrow> v | None \<Rightarrow> assigned_unit ticket)\<rparr>"

definition update_ticket ::
  "database \<Rightarrow> int \<Rightarrow> TicketUpdate \<Rightarrow> User \<Rightarrow> datetime \<Rightarrow> datetime
     \<Rightarrow> failure + (Ticket \<times> database)" where
  "update_ticket db tid payload current_user now now_db =
     (case db_get_ticket db tid of
        Inl e \<Rightarrow> Inl e
      | Inr None \<Rightarrow> http 404 ''Ticket not found''
      | Inr (Some ticket) \<Rightarrow>
          if role current_user = support then http 403 ''Support users cannot edit tickets''
          else if role current_user = student \<and> created_by_id ticket \<noteq> user_id current_user
          then http 403 ''You can only edit your tickets''
          else if role current_user = department
                  \<and> Some (department_id ticket) \<noteq> user_department_id current_user
          then http 403 ''Not your department''
          else if status ticket = ticket_closed then http 400 ''Closed tickets cannot be edited''
          else if no_updates payload then Inr (ticket, db)
          else if stores_null payload then Inl IntegrityError
          else Inr (commit_ticket db now_db ticket ((setattrs payload ticket)\<lparr>updated_at := now\<rparr>)))"

definition assign_ticket ::
  "database \<Rightarrow> int \<Rightarrow> int \<Rightarrow> User \<Rightarrow> datetime \<Rightarrow> datetime \<Rightarrow> failure + (Ticket \<times> database)" where
  "assign_ticket db tid support_user_id current_user now now_db =
     (if role current_user \<notin> {department, admin}
      then http 403 ''Only department/admin can assign tickets''
      else case db_get_ticket db tid of
        Inl e \<Rightarrow> Inl e
      | Inr None \<Rightarrow> http 404 ''Ticket not found''
      | Inr (Some ticket) \<Rightarrow>
          if role current_user = department
             \<and> Some (department_id ticket) \<noteq> user_department_id current_user
          then http 403 ''Ticket is not in your department''
          else (case db_get_user db support_user_id of
             Inl e \<Rightarrow> Inl e
           | Inr None \<Rightarrow> http 400 ''Support user not found''
           | Inr (Some support_user) \<Rightarrow>
               if role support_user \<noteq> support then http 400 ''Support user not found''
               else if user_department_id support_user \<noteq> Some (department_id ticket)
               then http 400 ''Support user is in a different department''
               else Inr (commit_ticket db now_db ticket
                      (ticket\<lparr>assigned_to_id := Some (user_id support_user),
                              assigned_at := Some now\<rparr>))))"

text \<open>
  The assignments of \<^verbatim>\<open>update_ticket_status\<close> to the loaded ticket, in the order of
  the source, with the one clock reading \<open>now\<close>.
\<close>

definition set_status :: "Ticket \<Rightarrow> TicketStatus \<Rightarrow> datetime \<Rightarrow> Ticket" where
  "set_status ticket new_status now =
     (let t1 = ticket\<lparr>status := new_status, updated_at := now\<rparr>;
          t2 = (if new_status = in_progress \<and> first_response_at t1 = None
                then t1\<lparr>first_response_at := Some now\<rparr> else t1);
          t3 = (if new_status \<in> {resolved, ticket_closed} \<and> resolved_at t2 = None
                then t2\<lparr>resolved_at := Some now\<rparr> else t2);
          t4 = (if new_status = ticket_closed then t3\<lparr>closed_at := Some now\<rparr> else t3)
      in t4)"

text \<open>
  \<^verbatim>\<open>send_resolution_notification\<close> posts to a webhook and swallows every failure; it
  touches neither the row nor the response.
\<close>

definition update_ticket_status ::
  "database \<Rightarrow> int \<Rightarrow> TicketStatus \<Rightarrow> User \<Rightarrow> datetime \<Rightarrow> datetime
     \<Rightarrow> failure + (Ticket \<times> database)" where
  "update_ticket_status db tid new_status current_user now now_db =
     (case db_get_ticket db tid of
        Inl e \<Rightarrow> Inl e
      | Inr None \<Rightarrow> http 404 ''Ticket not found''
      | Inr (Some ticket) \<Rightarrow>
          if role current_user = support \<and> assigned_to_id ticket \<noteq> Some (user_id current_user)
          then http 403 ''Only assigned support can update status''
          else if role current_user = department
                  \<and> Some (department_id ticket) \<noteq> user_department_id current_user
          then http 403 ''Not your department''
          else if role current_user = student then http 403 ''Students cannot change status''
          else Inr (commit_ticket db now_db ticket (set_status ticket new_status now)))"

text \<open>\<^verbatim>\<open>db.delete(ticket)\<close>; the relationship cascades to the ticket's comments.\<close>

definition delete_ticket :: "database \<Rightarrow> int \<Rightarrow> User \<Rightarrow> failure + (unit \<times> database)" where
  "delete_ticket db tid current_user =
     (case db_get_ticket db tid of
        Inl e \<Rightarrow> Inl e
      | Inr None \<Rightarrow> http 404 ''Ticket not found''
      | Inr (Some ticket) \<Rightarrow>
          if role current_user = admin
             \<or> (role current_user = department
                 \<and> Some (department_id ticket) = user_department_id current_user)
             \<or> (role current_user = student \<and> created_by_id ticket = user_id current_user
                 \<and> status ticket = ticket_open)
          then Inr ((), db\<lparr>tickets := filter (\<lambda>t. ticket_id t \<noteq> ticket_id ticket) (tickets db),
                           comments := filter (\<lambda>c. comment_ticket_id c \<noteq> ticket_id ticket)
                                         (comments db)\<rparr>)
          else http 403 ''You cannot delete this ticket'')"

text \<open>
  \<^verbatim>\<open>add_comment\<close> reads the clock once for \<^verbatim>\<open>updated_at\<close> (\<open>now\<close>) and again for
  \<^verbatim>\<open>first_response_at\<close> (\<open>now_resp\<close>); the comment's \<^verbatim>\<open>created_at\<close> default is read
  on insertion (\<open>now_comment\<close>).
\<close>

definition touch_for_comment :: "Ticket \<Rightarrow> User \<Rightarrow> datetime \<Rightarrow> datetime \<Rightarrow> Ticket" where
  "touch_for_comment ticket current_user now now_resp =
     (let t1 = ticket\<lparr>updated_at := now\<rparr>
      in if role current_user = support \<and> first_response_at t1 = None
         then t1\<lparr>first_response_at := Some now_resp\<rparr> else t1)"

definition add_comment ::
  "database \<Rightarrow> int \<Rightarrow> string \<Rightarrow> User \<Rightarrow> int \<Rightarrow> datetime \<Rightarrow> datetime \<Rightarrow> datetime \<Rightarrow> datetime
     \<Rightarrow> failure + (Comment \<times> database)" where
  "add_comment db tid text' current_user new_id now now_resp now_db now_comment =
     (case db_get_ticket db tid of
        Inl e \<Rightarrow> Inl e
      | Inr None \<Rightarrow> http 404 ''Ticket not found''
      | Inr (Some ticket) \<Rightarrow>
          (case ensure_ticket_visibility ticket current_user of
             Some e \<Rightarrow> Inl e
           | None \<Rightarrow>
               let comment = \<lparr>comment_id = new_id,
                              comment_ticket_id = tid,
                              author_id = user_id current_user,
                              content = text',
                              comment_created_at = now_comment\<rparr>;
                   (row, db') = commit_ticket db now_db ticket
                                  (touch_for_comment ticket current_user now now_resp)
               in Inr (comment, db'\<lparr>comments := comments db' @ [comment]\<rparr>)))"

definition list_comments :: "database \<Rightarrow> int \<Rightarrow> User \<Rightarrow> failure + (Comment list \<times> database)" where
  "list_comments db tid current_user =
     (case db_get_ticket db tid of
        Inl e \<Rightarrow> Inl e
      | Inr None \<Rightarrow> http 404 ''Ticket not found''
      | Inr (Some ticket) \<Rightarrow>
          (case ensure_ticket_visibility ticket current_user of
             Some e \<Rightarrow> Inl e
           | None \<Rightarrow>
               Inr (sort_key comment_created_at
                      (filter (\<lambda>c. comment_ticket_id c = tid) (comments db)), db)))"

subsection \<open>The agent's internal update\<close>

text \<open>
  \<^verbatim>\<open>verify_internal_secret\<close>: the header must be present, non-empty and equal to the
  configured secret.
\<close>

definition verify_internal_secret :: "string \<Rightarrow> string option \<Rightarrow> failure option" where
  "verify_internal_secret internal_secret x_internal_secret =
     (case x_internal_secret of
        None \<Rightarrow> Some (Raised (HTTPException 401 ''Invalid internal secret''))
      | Some h \<Rightarrow>
          if h = [] \<or> h \<noteq> internal_secret
          then Some (Raised (HTTPException 401 ''Invalid internal secret''))
          else None)"

text \<open>The assignments of \<^verbatim>\<open>internal_agent_update\<close> to the loaded ticket.\<close>

definition agent_setattrs :: "AgentUpdate \<Rightarrow> Ticket \<Rightarrow> datetime \<Rightarrow> Ticket" where
  "agent_setattrs payload ticket now =
     (let t1 = (case agent_priority payload of
                  Some (Some p) \<Rightarrow> ticket\<lparr>priority := p\<rparr> | _ \<Rightarrow> ticket);
          t2 = (case agent_category payload of
                  Some c \<Rightarrow> t1\<lparr>category := c\<rparr> | None \<Rightarrow> t1);
          t3 = (case agent_assigned_unit payload of
                  Some a \<Rightarrow> t2\<lparr>assigned_unit := a\<rparr> | None \<Rightarrow> t2)
      in t3\<lparr>updated_at := now\<rparr>)"

definition internal_agent_update ::
  "string \<Rightarrow> database \<Rightarrow> int \<Rightarrow> AgentUpdate \<Rightarrow> string option \<Rightarrow> int \<Rightarrow> datetime \<Rightarrow> datetime
     \<Rightarrow> datetime \<Rightarrow> failure + (Ticket \<times> database)" where
  "internal_agent_update internal_secret db tid payload x_internal_secret new_id now now_db
     now_comment =
     (case verify_internal_secret internal_secret x_internal_secret of
        Some e \<Rightarrow> Inl e
      | None \<Rightarrow>
          (case db_get_ticket db tid of
             Inl e \<Rightarrow> Inl e
           | Inr None \<Rightarrow> http 404 ''Ticket not found''
           | Inr (Some ticket) \<Rightarrow>
               let bot_user = find (\<lambda>u. email u = ''agent@system.local'') (users db);
                   (row, db') = commit_ticket db now_db ticket (agent_setattrs payload ticket now)
               in (case (agent_message payload, bot_user) of
                     (Some m, Some agent_bot) \<Rightarrow>
                       if m = [] then Inr (row, db')
                       else Inr (row, db'\<lparr>comments := comments db' @
                              [\<lparr>comment_id = new_id,
                                comment_ticket_id = tid,
                                author_id = user_id agent_bot,
                                content = m,
                                comment_created_at = now_comment\<rparr>]\<rparr>)
                   | _ \<Rightarrow> Inr (row, db'))))"

subsection \<open>Reporting (\<^verbatim>\<open>department_report\<close>)\<close>

record SupportReport =
  support_user_id :: int
  support_email :: string
  closed_this_week :: nat
  open_assigned :: nat
  average_response_minutes :: "rat option"
  fastest_resolution_minutes :: "rat option"
  slowest_resolution_minutes :: "rat option"

record DepartmentReport =
  report_department_id :: int
  week_start :: date
  week_end :: date
  supports :: "SupportReport list"

text \<open>
  \<^verbatim>\<open>(later - earlier).total_seconds() / 60\<close>, as an exact rational: the rounding of the
  Python float is not modelled.
\<close>

definition minutes_between :: "datetime \<Rightarrow> datetime \<Rightarrow> rat" where
  "minutes_between later earlier = of_int (later - earlier) / 60000000"

text \<open>\<^verbatim>\<open>t.assigned_at or t.created_at\<close>; a datetime is never falsy.\<close>

definition start_point :: "Ticket \<Rightarrow> datetime" where
  "start_point t = (case assigned_at t of Some a \<Rightarrow> a | None \<Rightarrow> created_at t)"

definition response_times :: "Ticket list \<Rightarrow> rat list" where
  "response_times ts =
     concat (map (\<lambda>t. case first_response_at t of
                         Some f \<Rightarrow> [minutes_between f (start_point t)] | None \<Rightarrow> []) ts)"

definition resolution_times :: "Ticket list \<Rightarrow> rat list" where
  "resolution_times ts =
     concat (map (\<lambda>t. case resolved_at t of
                         Some r \<Rightarrow> [minutes_between r (start_point t)] | None \<Rightarrow> []) ts)"

text \<open>The body of the loop over the department's support users.\<close>

definition support_report :: "database \<Rightarrow> date \<Rightarrow> date \<Rightarrow> User \<Rightarrow> SupportReport" where
  "support_report db start_date end_date su =
     (let ts = filter (\<lambda>t. assigned_to_id t = Some (user_id su)) (tickets db);
          closed = filter (\<lambda>t. (case resolved_at t of
                                   None \<Rightarrow> False
                                 | Some r \<Rightarrow> start_date \<le> date_of r \<and> date_of r < end_date)
                                \<and> status t \<in> {resolved, ticket_closed}) ts;
          open_ts = filter (\<lambda>t. status t \<in> {ticket_open, in_progress}) ts;
          resp = response_times ts;
          resol = resolution_times ts
      in \<lparr>support_user_id = user_id su,
          support_email = email su,
          closed_this_week = length closed,
          open_assigned = length open_ts,
          average_response_minutes =
            (if resp \<noteq> [] then Some (sum_list resp / of_nat (length resp)) else None),
          fastest_resolution_minutes =
            (case resol of [] \<Rightarrow> None | x # xs \<Rightarrow> Some (fold min xs x)),
          slowest_resolution_minutes =
            (case resol of [] \<Rightarrow> None | x # xs \<Rightarrow> Some (fold max xs x))\<rparr>)"

text \<open>
  A \<^verbatim>\<open>date\<close> lies between 0001-01-01 and 9999-12-31 (day numbers \<open>date_min\<close> and
  \<open>date_max\<close>); \<^verbatim>\<open>date + timedelta(days=n)\<close> raises \<^verbatim>\<open>OverflowError\<close> when the result
  does not.
\<close>

definition date_min :: date where
  "date_min = - 719162"

definition date_max :: date where
  "date_max = 2932896"

definition date_plus :: "date \<Rightarrow> int \<Rightarrow> failure + date" where
  "date_plus d n =
     (if date_min \<le> d + n \<and> d + n \<le> date_max then Inr (d + n) else Inl OverflowError)"

text \<open>
  \<^verbatim>\<open>start_date = week_start or (datetime.utcnow().date() - timedelta(days=7))\<close>, then
  \<^verbatim>\<open>week_end = start_date + timedelta(days=7)\<close>, after the department has been found.
\<close>

definition department_report ::
  "database \<Rightarrow> int \<Rightarrow> date option \<Rightarrow> User \<Rightarrow> datetime
     \<Rightarrow> failure + (DepartmentReport \<times> database)" where
  "department_report db did week_start_param current_user now =
     (if role current_user \<notin> {department, admin}
      then http 403 ''Only department/admin can view reports''
      else if role current_user = department \<and> user_department_id current_user \<noteq> Some did
      then http 403 ''Not your department''
      else case db_get_department db did of
        Inl e \<Rightarrow> Inl e
      | Inr None \<Rightarrow> http 404 ''Department not found''
      | Inr (Some dep) \<Rightarrow>
          (case (case week_start_param of
                   Some d \<Rightarrow> Inr d
                 | None \<Rightarrow> date_plus (date_of now) (- 7)) of
             Inl e \<Rightarrow> Inl e
           | Inr start_date \<Rightarrow>
               (case date_plus start_date 7 of
                  Inl e \<Rightarrow> Inl e
                | Inr end_date \<Rightarrow>
                    let sups = filter (\<lambda>u. role u = support \<and> user_department_id u = Some did)
                                 (users db)
                    in Inr (\<lparr>report_department_id = did,
                             week_start = start_date,
                             week_end = end_date,
                             supports = map (support_report db start_date end_date) sups\<rparr>,
                            db))))"

subsection \<open>Requests\<close>

text \<open>
  One request to the service, with the key of the row it inserts and the clock readings
  taken while it is served, and the database it leaves behind. The handlers left out (registration, login, the listings,
  the AI suggestions and the internal reads) write no ticket row.
\<close>

datatype event =
    CreateTicket TicketCreate User int datetime datetime
  | GetTicket int User
  | UpdateTicket int TicketUpdate User datetime datetime
  | AssignTicket int int User datetime datetime
  | UpdateTicketStatus int TicketStatus User datetime datetime
  | DeleteTicket int User
  | AddComment int string User int datetime datetime datetime datetime
  | ListComments int User
  | InternalAgentUpdate int AgentUpdate "string option" int datetime datetime datetime
  | DepartmentReportFor int "date option" User datetime

fun serve :: "string \<Rightarrow> database \<Rightarrow> event \<Rightarrow> database" where
  "serve secret db (CreateTicket p u i n1 n2) = db_after db (create_ticket db p u i n1 n2)"
| "serve secret db (GetTicket tid u) = db_after db (get_ticket db tid u)"
| "serve secret db (UpdateTicket tid p u n nd) = db_after db (update_ticket db tid p u n nd)"
| "serve secret db (AssignTicket tid sid u n nd) = db_after db (assign_ticket db tid sid u n nd)"
| "serve secret db (UpdateTicketStatus tid st u n nd) =
     db_after db (update_ticket_status db tid st u n nd)"
| "serve secret db (DeleteTicket tid u) = db_after db (delete_ticket db tid u)"
| "serve secret db (AddComment tid c u i n nr nd nc) =
     db_after db (add_comment db tid c u i n nr nd nc)"
| "serve secret db (ListComments tid u) = db_after db (list_comments db tid u)"
| "serve secret db (InternalAgentUpdate tid p h i n nd nc) =
     db_after db (internal_agent_update secret db tid p h i n nd nc)"
| "serve secret db (DepartmentReportFor did ws u n) =
     db_after db (department_report db did ws u n)"

subsection \<open>A sample database\<close>

text \<open>
  Two of the seeded departments, one user of each role, and two tickets of the student:
  a fresh one and one that went through assignment, first response, resolution and
  closing.
\<close>

definition demo_student :: User where
  "demo_student = \<lparr>user_id = 1, email = ''student@test.com'', full_name = None,
     hashed_password = ''x'', role = student, user_department_id = None, is_active = True\<rparr>"

definition demo_support :: User where
  "demo_support = \<lparr>user_id = 2, email = ''support@test.com'', full_name = None,
     hashed_password = ''x'', role = support, user_department_id = Some 1, is_active = True\<rparr>"

definition demo_manager :: User where
  "demo_manager = \<lparr>user_id = 3, email = ''manager@test.com'', full_name = None,
     hashed_password = ''x'', role = department, user_department_id = Some 1, is_active = True\<rparr>"

definition demo_admin :: User where
  "demo_admin = \<lparr>user_id = 4, email = ''admin@test.com'', full_name = None,
     hashed_password = ''x'', role = admin, user_department_id = None, is_active = True\<rparr>"

definition demo_support_other :: User where
  "demo_support_other = \<lparr>user_id = 5, email = ''support2@test.com'', full_name = None,
     hashed_password = ''x'', role = support, user_department_id = Some 2, is_active = True\<rparr>"

definition demo_ticket :: Ticket where
  "demo_ticket = \<lparr>ticket_id = 1, title = ''WiFi issue'', description = ''wifi kopuyor yurt'',
     category = None, assigned_unit = None, priority = high, status = ticket_open,
     department_id = 1, created_by_id = 1, assigned_to_id = None, created_at = 1000,
     updated_at = 1000, first_response_at = None, resolved_at = None, closed_at = None,
     assigned_at = None\<rparr>"

definition demo_closed_ticket :: Ticket where
  "demo_closed_ticket = \<lparr>ticket_id = 2, title = ''Projeksiyon bozuk'',
     description = ''projeksiyon calismiyor 302'', category = None, assigned_unit = None,
     priority = medium, status = ticket_closed, department_id = 1, created_by_id = 1,
     assigned_to_id = Some 2, created_at = 1000, updated_at = 4000,
     first_response_at = Some 2000, resolved_at = Some 3000, closed_at = Some 4000,
     assigned_at = Some 1500\<rparr>"

definition demo_db :: database where
  "demo_db = \<lparr>departments =
       [\<lparr>dept_id = 1, dept_name = ''Bilgi Islem'', dept_description = None\<rparr>,
        \<lparr>dept_id = 2, dept_name = ''Yapi Isleri'', dept_description = None\<rparr>],
     users = [demo_student, demo_support, demo_manager, demo_admin, demo_support_other],
     tickets = [demo_ticket, demo_closed_ticket],
     comments = []\<rparr>"

definition empty_update :: TicketUpdate where
  "empty_update = \<lparr>set_title = None, set_description = None, set_priority = None,
     set_category = None, set_assigned_unit = None\<rparr>"

definition demo_request :: TicketCreate where
  "demo_request = \<lparr>create_title = ''Asansor'', create_description = ''asansor calismiyor'',
     create_department_id = 2, create_priority = medium, create_category = None,
     create_assigned_unit = None\<rparr>"

definition demo_edit :: TicketUpdate where
  "demo_edit = \<lparr>set_title = Some (Some ''WiFi yurt''), set_description = None,
     set_priority = None, set_category = None, set_assigned_unit = None\<rparr>"

definition demo_agent_update :: AgentUpdate where
  "demo_agent_update = \<lparr>agent_priority = Some (Some high), agent_category = Some (Some ''Internet''),
     agent_assigned_unit = Some (Some ''Network''), agent_message = None\<rparr>"

section \<open>Properties\<close>

subsection \<open>Auxiliary facts: the store\<close>

lemma any_in_iff: "any_in ks s \<longleftrightarrow> (\<exists>k\<in>set ks. occurs_in k s)"
  by (simp add: any_in_def list_ex_iff occurs_in_def sublist_def)

lemma db_get_ticket_id: "db_get_ticket db tid = Inr (Some t) \<Longrightarrow> ticket_id t = tid"
  by (auto simp: db_get_ticket_def db_get_def find_Some_iff split: if_splits)

lemma db_get_user_id: "db_get_user db uid = Inr (Some s) \<Longrightarrow> user_id s = uid"
  by (auto simp: db_get_user_def db_get_def find_Some_iff split: if_splits)

lemma db_get_ticket_int64: "db_get_ticket db tid = Inr r \<Longrightarrow> int64 tid"
  by (auto simp: db_get_ticket_def db_get_def split: if_splits)

text \<open>A key outside the signed 64-bit range never reaches the table.\<close>

lemma db_get_out_of_range: "\<not> int64 k \<Longrightarrow> db_get pk rows k = Inl OverflowError"
  by (simp add: db_get_def)

lemma db_get_ticket_cases:
  "db_get_ticket db tid = Inl OverflowError \<or> db_get_ticket db tid = Inr None
   \<or> (\<exists>t. db_get_ticket db tid = Inr (Some t))"
  by (cases "find (\<lambda>r. ticket_id r = tid) (tickets db)")
     (auto simp: db_get_ticket_def db_get_def)

lemma find_replace:
  "ticket_id row = i \<Longrightarrow>
   find (\<lambda>t. ticket_id t = k) (map (\<lambda>t. if ticket_id t = i then row else t) ts) =
     (if k = i then map_option (\<lambda>_. row) (find (\<lambda>t. ticket_id t = i) ts)
      else find (\<lambda>t. ticket_id t = k) ts)"
  by (induction ts) auto

lemma db_get_ticket_comments [simp]:
  "db_get_ticket (db\<lparr>comments := cs\<rparr>) k = db_get_ticket db k"
  by (simp add: db_get_ticket_def)

lemma response_Inr: "response r = Inr x \<longleftrightarrow> (\<exists>db'. r = Inr (x, db'))"
  by (auto simp: response_def split: sum.splits)

lemma db_after_Inr [simp]: "db_after db (Inr (x, db')) = db'"
  by (simp add: db_after_def)

lemma db_after_Inl [simp]: "db_after db (Inl e) = db"
  by (simp add: db_after_def)

text \<open>The flush touches no column but \<^verbatim>\<open>updated_at\<close>.\<close>

lemma orm_flush_fields [simp]:
  "ticket_id (orm_flush nd old new) = ticket_id new"
  "title (orm_flush nd old new) = title new"
  "description (orm_flush nd old new) = description new"
  "category (orm_flush nd old new) = category new"
  "assigned_unit (orm_flush nd old new) = assigned_unit new"
  "priority (orm_flush nd old new) = priority new"
  "status (orm_flush nd old new) = status new"
  "department_id (orm_flush nd old new) = department_id new"
  "created_by_id (orm_flush nd old new) = created_by_id new"
  "assigned_to_id (orm_flush nd old new) = assigned_to_id new"
  "created_at (orm_flush nd old new) = created_at new"
  "first_response_at (orm_flush nd old new) = first_response_at new"
  "resolved_at (orm_flush nd old new) = resolved_at new"
  "closed_at (orm_flush nd old new) = closed_at new"
  "assigned_at (orm_flush nd old new) = assigned_at new"
  by (simp_all add: orm_flush_def)

lemma orm_flush_updated_at:
  "updated_at (orm_flush nd old new) =
     (if new \<noteq> old \<and> updated_at new = updated_at old then nd else updated_at new)"
  by (simp add: orm_flush_def)

lemma flush_stamp:
  "updated_at new = now \<Longrightarrow>
   updated_at (orm_flush nd t new) = now
   \<or> (updated_at t = now \<and> updated_at (orm_flush nd t new) = nd)"
  by (auto simp: orm_flush_updated_at)

lemma commit_ticket_row:
  "commit_ticket db nd old new = (row, db') \<Longrightarrow> row = orm_flush nd old new"
  by (auto simp: commit_ticket_def Let_def)

lemma commit_ticket_get:
  assumes "db_get_ticket db tid = Inr (Some old)" and "ticket_id new = tid"
    and "commit_ticket db nd old new = (row, db')"
  shows "db_get_ticket db' k = (if k = tid then Inr (Some row) else db_get_ticket db k)"
  using assms
  by (auto simp: commit_ticket_def Let_def db_update_ticket_def db_get_ticket_def db_get_def
      find_replace split: if_splits)

lemma commit_ticket_frame:
  "commit_ticket db nd old new = (row, db') \<Longrightarrow>
     users db' = users db \<and> departments db' = departments db \<and> comments db' = comments db"
  by (auto simp: commit_ticket_def Let_def db_update_ticket_def)

subsection \<open>Auxiliary facts: what each handler assigns\<close>

lemma set_status_fields [simp]:
  "ticket_id (set_status t st now) = ticket_id t"
  "status (set_status t st now) = st"
  "updated_at (set_status t st now) = now"
  "first_response_at (set_status t st now) =
     (if st = in_progress \<and> first_response_at t = None then Some now else first_response_at t)"
  "resolved_at (set_status t st now) =
     (if st \<in> {resolved, ticket_closed} \<and> resolved_at t = None then Some now else resolved_at t)"
  "closed_at (set_status t st now) = (if st = ticket_closed then Some now else closed_at t)"
  by (simp_all add: set_status_def Let_def)

lemma touch_for_comment_fields [simp]:
  "ticket_id (touch_for_comment t u now nr) = ticket_id t"
  "updated_at (touch_for_comment t u now nr) = now"
  "first_response_at (touch_for_comment t u now nr) =
     (if role u = support \<and> first_response_at t = None then Some nr else first_response_at t)"
  "status (touch_for_comment t u now nr) = status t"
  by (simp_all add: touch_for_comment_def Let_def)

lemma agent_setattrs_fields [simp]:
  "ticket_id (agent_setattrs p t now) = ticket_id t"
  "updated_at (agent_setattrs p t now) = now"
  "first_response_at (agent_setattrs p t now) = first_response_at t"
  by (simp_all add: agent_setattrs_def Let_def split: option.splits)

lemma setattrs_fields [simp]:
  "ticket_id (setattrs p t) = ticket_id t"
  "first_response_at (setattrs p t) = first_response_at t"
  "status (setattrs p t) = status t"
  by (simp_all add: setattrs_def)

lemma assign_row_unchanged:
  "t\<lparr>assigned_to_id := a, assigned_at := b\<rparr> = t \<longleftrightarrow> assigned_to_id t = a \<and> assigned_at t = b"
  by (cases t) auto

subsection \<open>Auxiliary facts: a handler that answers\<close>

lemma update_ticket_status_Inr:
  assumes "db_get_ticket db tid = Inr (Some t)"
    and "update_ticket_status db tid st u now nd = Inr (t', db')"
  shows "t' = orm_flush nd t (set_status t st now)
         \<and> (\<forall>k. db_get_ticket db' k = (if k = tid then Inr (Some t') else db_get_ticket db k))"
proof -
  from assms have c: "commit_ticket db nd t (set_status t st now) = (t', db')"
    by (auto simp: update_ticket_status_def split: if_splits)
  have i: "ticket_id (set_status t st now) = tid" using assms(1) by (simp add: db_get_ticket_id)
  from commit_ticket_row[OF c] commit_ticket_get[OF assms(1) i c] show ?thesis by simp
qed

lemma update_ticket_status_answers:
  assumes "db_get_ticket db tid = Inr (Some t)"
    and "role u = admin \<or> role u = support \<and> assigned_to_id t = Some (user_id u)
         \<or> role u = department \<and> user_department_id u = Some (department_id t)"
  shows "update_ticket_status db tid st u now nd =
           Inr (commit_ticket db nd t (set_status t st now))"
  using assms by (cases "role u") (auto simp: update_ticket_status_def)

lemma update_ticket_status_refuses:
  assumes "db_get_ticket db tid = Inr (Some t)"
    and "\<not> (role u = admin \<or> role u = support \<and> assigned_to_id t = Some (user_id u)
            \<or> role u = department \<and> user_department_id u = Some (department_id t))"
  shows "\<exists>msg. update_ticket_status db tid st u now nd = http 403 msg"
  using assms by (cases "role u") (auto simp: update_ticket_status_def)

lemma update_ticket_Inr:
  assumes "db_get_ticket db tid = Inr (Some t)"
    and "update_ticket db tid p u now nd = Inr (t', db')" and "\<not> no_updates p"
  shows "t' = orm_flush nd t ((setattrs p t)\<lparr>updated_at := now\<rparr>)
         \<and> (\<forall>k. db_get_ticket db' k = (if k = tid then Inr (Some t') else db_get_ticket db k))"
proof -
  from assms have c: "commit_ticket db nd t ((setattrs p t)\<lparr>updated_at := now\<rparr>) = (t', db')"
    by (auto simp: update_ticket_def split: if_splits)
  have i: "ticket_id ((setattrs p t)\<lparr>updated_at := now\<rparr>) = tid"
    using assms(1) by (simp add: db_get_ticket_id)
  from commit_ticket_row[OF c] commit_ticket_get[OF assms(1) i c] show ?thesis by simp
qed

lemma update_ticket_answers:
  assumes "db_get_ticket db tid = Inr (Some t)"
    and "role u = admin \<or> role u = student \<and> created_by_id t = user_id u
         \<or> role u = department \<and> user_department_id u = Some (department_id t)"
    and "status t \<noteq> ticket_closed" and "\<not> no_updates p" and "\<not> stores_null p"
  shows "update_ticket db tid p u now nd =
           Inr (commit_ticket db nd t ((setattrs p t)\<lparr>updated_at := now\<rparr>))"
  using assms by (cases "role u") (auto simp: update_ticket_def)

lemma add_comment_Inr:
  assumes "db_get_ticket db tid = Inr (Some t)"
    and "add_comment db tid c u i now nr nd nc = Inr (cm, db')"
  shows "\<forall>k. db_get_ticket db' k =
           (if k = tid then Inr (Some (orm_flush nd t (touch_for_comment t u now nr)))
            else db_get_ticket db k)"
proof -
  obtain row db1 where c: "commit_ticket db nd t (touch_for_comment t u now nr) = (row, db1)"
    by force
  from assms c have d: "db' = db1\<lparr>comments := comments db1 @ [cm]\<rparr>"
    by (auto simp: add_comment_def Let_def split: option.splits if_splits)
  have i: "ticket_id (touch_for_comment t u now nr) = tid"
    using assms(1) by (simp add: db_get_ticket_id)
  from commit_ticket_row[OF c] commit_ticket_get[OF assms(1) i c] d show ?thesis by simp
qed

lemma add_comment_answers:
  assumes "db_get_ticket db tid = Inr (Some t)"
    and "ensure_ticket_visibility t u = None"
  shows "\<exists>cm. response (add_comment db tid c u i now nr nd nc) = Inr cm"
  using assms by (simp add: add_comment_def response_def Let_def split: prod.splits)

lemma internal_agent_update_Inr:
  assumes "db_get_ticket db tid = Inr (Some t)"
    and "internal_agent_update secret db tid p h i now nd nc = Inr (t', db')"
  shows "t' = orm_flush nd t (agent_setattrs p t now)
         \<and> (\<forall>k. db_get_ticket db' k = (if k = tid then Inr (Some t') else db_get_ticket db k))"
proof -
  obtain row db1 where c: "commit_ticket db nd t (agent_setattrs p t now) = (row, db1)" by force
  from assms c have d: "t' = row \<and> ((\<exists>cs. db' = db1\<lparr>comments := cs\<rparr>) \<or> db' = db1)"
    unfolding internal_agent_update_def Let_def
    by (auto split: option.splits if_splits prod.splits)
  have i: "ticket_id (agent_setattrs p t now) = tid" using assms(1) by (simp add: db_get_ticket_id)
  from commit_ticket_row[OF c] commit_ticket_get[OF assms(1) i c] d show ?thesis by auto
qed

lemma internal_agent_update_answers:
  assumes "db_get_ticket db tid = Inr (Some t)"
    and "verify_internal_secret secret h = None"
  shows "\<exists>t'. response (internal_agent_update secret db tid p h i now nd nc) = Inr t'"
  using assms
  by (simp add: internal_agent_update_def response_def Let_def
      split: prod.splits option.splits)

lemma assign_ticket_Inr:
  assumes "db_get_ticket db tid = Inr (Some t)"
    and "assign_ticket db tid sid u now nd = Inr (t', db')"
  shows "t' = orm_flush nd t (t\<lparr>assigned_to_id := Some sid, assigned_at := Some now\<rparr>)
         \<and> (\<exists>s. db_get_user db sid = Inr (Some s) \<and> user_id s = sid \<and> role s = support
              \<and> user_department_id s = Some (department_id t))
         \<and> (role u = admin \<or> role u = department \<and> user_department_id u = Some (department_id t))
         \<and> (\<forall>k. db_get_ticket db' k = (if k = tid then Inr (Some t') else db_get_ticket db k))
         \<and> users db' = users db \<and> departments db' = departments db \<and> comments db' = comments db"
proof -
  from assms obtain s where s: "db_get_user db sid = Inr (Some s)" "role s = support"
      "user_department_id s = Some (department_id t)"
      and c: "commit_ticket db nd t
                (t\<lparr>assigned_to_id := Some (user_id s), assigned_at := Some now\<rparr>) = (t', db')"
      and a: "role u = admin \<or> role u = department \<and> user_department_id u = Some (department_id t)"
    by (auto simp: assign_ticket_def split: if_splits option.splits sum.splits)
  have u: "user_id s = sid" using s(1) by (rule db_get_user_id)
  have i: "ticket_id (t\<lparr>assigned_to_id := Some (user_id s), assigned_at := Some now\<rparr>) = tid"
    using assms(1) by (simp add: db_get_ticket_id)
  from s a u commit_ticket_row[OF c] commit_ticket_get[OF assms(1) i c] commit_ticket_frame[OF c]
  show ?thesis by simp
qed

lemma assign_ticket_authorized:
  assumes t: "db_get_ticket db tid = Inr (Some t)"
    and auth: "role u = admin \<or> role u = department \<and> user_department_id u = Some (department_id t)"
  shows "assign_ticket db tid sid u now nd =
     (case db_get_user db sid of
        Inl e \<Rightarrow> Inl e
      | Inr None \<Rightarrow> http 400 ''Support user not found''
      | Inr (Some s) \<Rightarrow>
          if role s \<noteq> support then http 400 ''Support user not found''
          else if user_department_id s \<noteq> Some (department_id t)
          then http 400 ''Support user is in a different department''
          else Inr (commit_ticket db nd t
                 (t\<lparr>assigned_to_id := Some (user_id s), assigned_at := Some now\<rparr>)))"
proof -
  from auth have g: "role u \<in> {department, admin}" by auto
  from auth have d: "\<not> (role u = department \<and> Some (department_id t) \<noteq> user_department_id u)"
    by auto
  show ?thesis
    unfolding assign_ticket_def
    by (simp only: g d t not_True_eq_False if_False option.case sum.case not_not)
qed

lemma assign_ticket_answers:
  assumes t: "db_get_ticket db tid = Inr (Some t)"
    and auth: "role u = admin \<or> role u = department \<and> user_department_id u = Some (department_id t)"
    and s: "db_get_user db sid = Inr (Some s)" "role s = support"
      "user_department_id s = Some (department_id t)"
  shows "\<exists>t'. response (assign_ticket db tid sid u now nd) = Inr t'"
  using s by (simp add: assign_ticket_authorized[OF t auth] response_def split: prod.splits)

lemma assign_ticket_key_overflow:
  assumes t: "db_get_ticket db tid = Inr (Some t)"
    and auth: "role u = admin \<or> role u = department \<and> user_department_id u = Some (department_id t)"
    and k: "\<not> int64 sid"
  shows "assign_ticket db tid sid u now nd = Inl OverflowError"
  using k by (simp add: assign_ticket_authorized[OF t auth] db_get_user_def db_get_def)

subsection \<open>Auxiliary facts: the sample database\<close>

lemma demo_get1: "db_get_ticket demo_db 1 = Inr (Some demo_ticket)"
  by code_simp

lemma demo_get2: "db_get_ticket demo_db 2 = Inr (Some demo_closed_ticket)"
  by code_simp

lemma demo_get99: "db_get_ticket demo_db 99 = Inr None"
  by code_simp

subsection \<open>Auxiliary facts: no request overwrites a first response\<close>

lemma find_append_Some:
  "find P xs = Some x \<Longrightarrow> find P (xs @ ys) = Some x"
  by (induction xs) auto

lemma find_filter_other:
  "find (\<lambda>t. ticket_id t = k) (filter (\<lambda>t. ticket_id t \<noteq> i) ts) =
     (if k = i then None else find (\<lambda>t. ticket_id t = k) ts)"
  by (induction ts) auto

lemma create_ticket_keeps:
  assumes "db_get_ticket db k = Inr (Some t)"
    and "db_get_ticket (db_after db (create_ticket db p u i n1 n2)) k = Inr (Some t')"
  shows "t' = t"
proof (cases "create_ticket db p u i n1 n2")
  case (Inl e)
  with assms show ?thesis by simp
next
  case (Inr r)
  then obtain x where "r = (x, db\<lparr>tickets := tickets db @ [x]\<rparr>)"
    by (auto simp: create_ticket_def Let_def split: if_splits option.splits sum.splits)
  with Inr assms show ?thesis
    by (auto simp: db_get_ticket_def db_get_def find_append_Some split: if_splits)
qed

lemma delete_ticket_keeps:
  assumes "db_get_ticket db k = Inr (Some t)"
    and "db_get_ticket (db_after db (delete_ticket db tid u)) k = Inr (Some t')"
  shows "t' = t"
proof (cases "delete_ticket db tid u")
  case (Inl e)
  with assms show ?thesis by simp
next
  case (Inr r)
  then obtain t0 where "db_get_ticket db tid = Inr (Some t0)"
    and "r = ((), db\<lparr>tickets := filter (\<lambda>t. ticket_id t \<noteq> ticket_id t0) (tickets db),
                      comments := filter (\<lambda>c. comment_ticket_id c \<noteq> ticket_id t0) (comments db)\<rparr>)"
    by (auto simp: delete_ticket_def split: if_splits option.splits sum.splits)
  with Inr assms show ?thesis
    by (auto simp: db_get_ticket_def db_get_def find_filter_other split: if_splits)
qed

lemma flushed_keeps:
  assumes k: "db_get_ticket db k = Inr (Some t)" and x: "first_response_at t = Some x"
    and t0: "db_get_ticket db tid = Inr (Some t0)"
    and g: "\<forall>j. db_get_ticket db' j = (if j = tid then Inr (Some (orm_flush nd t0 new))
                                          else db_get_ticket db j)"
    and n: "first_response_at t0 \<noteq> None \<longrightarrow> first_response_at new = first_response_at t0"
    and a: "db_get_ticket db' k = Inr (Some t')"
  shows "first_response_at t' = Some x"
proof (cases "k = tid")
  case True
  with k t0 have "t0 = t" by simp
  with True g a n x show ?thesis by auto
next
  case False
  with g a k x show ?thesis by simp
qed

lemma answered_ticket_exists:
  "update_ticket_status db tid st u now nd = Inr r \<Longrightarrow> \<exists>t0. db_get_ticket db tid = Inr (Some t0)"
  "update_ticket db tid p u now nd = Inr r \<Longrightarrow> \<exists>t0. db_get_ticket db tid = Inr (Some t0)"
  "assign_ticket db tid sid u now nd = Inr r \<Longrightarrow> \<exists>t0. db_get_ticket db tid = Inr (Some t0)"
  "add_comment db tid c u i now nr nd nc = Inr r' \<Longrightarrow> \<exists>t0. db_get_ticket db tid = Inr (Some t0)"
  "internal_agent_update secret db tid ap h i now nd nc = Inr r
     \<Longrightarrow> \<exists>t0. db_get_ticket db tid = Inr (Some t0)"
  by (auto simp: update_ticket_status_def update_ticket_def assign_ticket_def add_comment_def
      internal_agent_update_def split: option.splits sum.splits if_splits)

lemma update_ticket_status_keeps:
  assumes k: "db_get_ticket db k = Inr (Some t)" and x: "first_response_at t = Some x"
    and a: "db_get_ticket (db_after db (update_ticket_status db tid st u now nd)) k
              = Inr (Some t')"
  shows "first_response_at t' = Some x"
proof (cases "update_ticket_status db tid st u now nd")
  case (Inl e)
  with k x a show ?thesis by simp
next
  case (Inr r)
  obtain row db' where r: "r = (row, db')" by (cases r)
  from answered_ticket_exists(1)[OF Inr] obtain t0 where t0: "db_get_ticket db tid = Inr (Some t0)"
    by blast
  from update_ticket_status_Inr[OF t0 Inr[unfolded r]]
  have g: "\<forall>j. db_get_ticket db' j =
             (if j = tid then Inr (Some (orm_flush nd t0 (set_status t0 st now)))
              else db_get_ticket db j)"
    by simp
  from a Inr r have a': "db_get_ticket db' k = Inr (Some t')" by simp
  show ?thesis by (rule flushed_keeps[OF k x t0 g _ a']) simp
qed

lemma update_ticket_keeps:
  assumes k: "db_get_ticket db k = Inr (Some t)" and x: "first_response_at t = Some x"
    and a: "db_get_ticket (db_after db (update_ticket db tid p u now nd)) k = Inr (Some t')"
  shows "first_response_at t' = Some x"
proof (cases "update_ticket db tid p u now nd")
  case (Inl e)
  with k x a show ?thesis by simp
next
  case (Inr r)
  obtain row db' where r: "r = (row, db')" by (cases r)
  from answered_ticket_exists(2)[OF Inr] obtain t0 where t0: "db_get_ticket db tid = Inr (Some t0)"
    by blast
  from a Inr r have a': "db_get_ticket db' k = Inr (Some t')" by simp
  show ?thesis
  proof (cases "no_updates p")
    case True
    with Inr r t0 have "db' = db" by (auto simp: update_ticket_def split: if_splits)
    with a' k x show ?thesis by simp
  next
    case False
    from update_ticket_Inr[OF t0 Inr[unfolded r] False]
    have g: "\<forall>j. db_get_ticket db' j =
             (if j = tid then Inr (Some (orm_flush nd t0 ((setattrs p t0)\<lparr>updated_at := now\<rparr>)))
              else db_get_ticket db j)"
      by simp
    show ?thesis by (rule flushed_keeps[OF k x t0 g _ a']) simp
  qed
qed

lemma assign_ticket_keeps:
  assumes k: "db_get_ticket db k = Inr (Some t)" and x: "first_response_at t = Some x"
    and a: "db_get_ticket (db_after db (assign_ticket db tid sid u now nd)) k = Inr (Some t')"
  shows "first_response_at t' = Some x"
proof (cases "assign_ticket db tid sid u now nd")
  case (Inl e)
  with k x a show ?thesis by simp
next
  case (Inr r)
  obtain row db' where r: "r = (row, db')" by (cases r)
  from answered_ticket_exists(3)[OF Inr] obtain t0 where t0: "db_get_ticket db tid = Inr (Some t0)"
    by blast
  from assign_ticket_Inr[OF t0 Inr[unfolded r]]
  have g: "\<forall>j. db_get_ticket db' j =
             (if j = tid
              then Inr (Some (orm_flush nd t0
                     (t0\<lparr>assigned_to_id := Some sid, assigned_at := Some now\<rparr>)))
              else db_get_ticket db j)"
    by simp
  from a Inr r have a': "db_get_ticket db' k = Inr (Some t')" by simp
  show ?thesis by (rule flushed_keeps[OF k x t0 g _ a']) simp
qed

lemma add_comment_keeps:
  assumes k: "db_get_ticket db k = Inr (Some t)" and x: "first_response_at t = Some x"
    and a: "db_get_ticket (db_after db (add_comment db tid c u i now nr nd nc)) k
              = Inr (Some t')"
  shows "first_response_at t' = Some x"
proof (cases "add_comment db tid c u i now nr nd nc")
  case (Inl e)
  with k x a show ?thesis by simp
next
  case (Inr r)
  obtain cm db' where r: "r = (cm, db')" by (cases r)
  from answered_ticket_exists(4)[OF Inr] obtain t0 where t0: "db_get_ticket db tid = Inr (Some t0)"
    by blast
  note g = add_comment_Inr[OF t0 Inr[unfolded r]]
  from a Inr r have a': "db_get_ticket db' k = Inr (Some t')" by simp
  show ?thesis by (rule flushed_keeps[OF k x t0 g _ a']) simp
qed

lemma internal_agent_update_keeps:
  assumes k: "db_get_ticket db k = Inr (Some t)" and x: "first_response_at t = Some x"
    and a: "db_get_ticket (db_after db (internal_agent_update secret db tid p h i now nd nc)) k
              = Inr (Some t')"
  shows "first_response_at t' = Some x"
proof (cases "internal_agent_update secret db tid p h i now nd nc")
  case (Inl e)
  with k x a show ?thesis by simp
next
  case (Inr r)
  obtain row db' where r: "r = (row, db')" by (cases r)
  from answered_ticket_exists(5)[OF Inr] obtain t0 where t0: "db_get_ticket db tid = Inr (Some t0)"
    by blast
  from internal_agent_update_Inr[OF t0 Inr[unfolded r]]
  have g: "\<forall>j. db_get_ticket db' j =
             (if j = tid then Inr (Some (orm_flush nd t0 (agent_setattrs p t0 now)))
              else db_get_ticket db j)"
    by simp
  from a Inr r have a': "db_get_ticket db' k = Inr (Some t')" by simp
  show ?thesis by (rule flushed_keeps[OF k x t0 g _ a']) simp
qed

lemma read_only_handlers:
  "db_after db (get_ticket db tid u) = db"
  "db_after db (list_comments db tid u) = db"
  "db_after db (department_report db did ws u now) = db"
  by (auto simp: db_after_def get_ticket_def list_comments_def department_report_def Let_def
      split: sum.splits option.splits if_splits)

lemma serve_keeps_first_response:
  assumes k: "db_get_ticket db k = Inr (Some t)" and x: "first_response_at t = Some x"
    and a: "db_get_ticket (serve secret db ev) k = Inr (Some t')"
  shows "first_response_at t' = Some x"
proof (cases ev)
  case (CreateTicket p u i n1 n2)
  with a have "db_get_ticket (db_after db (create_ticket db p u i n1 n2)) k = Inr (Some t')"
    by simp
  from create_ticket_keeps[OF k this] x show ?thesis by simp
next
  case (GetTicket tid u)
  with a k x show ?thesis by (simp add: read_only_handlers)
next
  case (UpdateTicket tid p u n nd)
  with a have "db_get_ticket (db_after db (update_ticket db tid p u n nd)) k = Inr (Some t')"
    by simp
  from update_ticket_keeps[OF k x this] show ?thesis .
next
  case (AssignTicket tid sid u n nd)
  with a have "db_get_ticket (db_after db (assign_ticket db tid sid u n nd)) k = Inr (Some t')"
    by simp
  from assign_ticket_keeps[OF k x this] show ?thesis .
next
  case (UpdateTicketStatus tid st u n nd)
  with a
  have "db_get_ticket (db_after db (update_ticket_status db tid st u n nd)) k = Inr (Some t')"
    by simp
  from update_ticket_status_keeps[OF k x this] show ?thesis .
next
  case (DeleteTicket tid u)
  with a have "db_get_ticket (db_after db (delete_ticket db tid u)) k = Inr (Some t')" by simp
  from delete_ticket_keeps[OF k this] x show ?thesis by simp
next
  case (AddComment tid c u i n nr nd nc)
  with a
  have "db_get_ticket (db_after db (add_comment db tid c u i n nr nd nc)) k = Inr (Some t')"
    by simp
  from add_comment_keeps[OF k x this] show ?thesis .
next
  case (ListComments tid u)
  with a k x show ?thesis by (simp add: read_only_handlers)
next
  case (InternalAgentUpdate tid p h i n nd nc)
  with a
  have "db_get_ticket (db_after db (internal_agent_update secret db tid p h i n nd nc)) k
          = Inr (Some t')"
    by simp
  from internal_agent_update_keeps[OF k x this] show ?thesis .
next
  case (DepartmentReportFor did ws u n)
  with a k x show ?thesis by (simp add: read_only_handlers)
qed

subsection \<open>Auxiliary facts: the report\<close>

lemma response_times_empty:
  "response_times ts = [] \<longleftrightarrow> (\<forall>t\<in>set ts. first_response_at t = None)"
  by (induction ts) (auto simp: response_times_def split: option.splits)

lemma resolution_times_empty:
  "resolution_times ts = [] \<longleftrightarrow> (\<forall>t\<in>set ts. resolved_at t = None)"
  by (induction ts) (auto simp: resolution_times_def split: option.splits)

lemma support_report_fields:
  "support_user_id (support_report db sd ed s) = user_id s"
  "average_response_minutes (support_report db sd ed s) = None \<longleftrightarrow>
     (\<forall>t\<in>set (tickets db). assigned_to_id t = Some (user_id s) \<longrightarrow> first_response_at t = None)"
  "fastest_resolution_minutes (support_report db sd ed s) = None \<longleftrightarrow>
     (\<forall>t\<in>set (tickets db). assigned_to_id t = Some (user_id s) \<longrightarrow> resolved_at t = None)"
  "slowest_resolution_minutes (support_report db sd ed s) = None \<longleftrightarrow>
     (\<forall>t\<in>set (tickets db). assigned_to_id t = Some (user_id s) \<longrightarrow> resolved_at t = None)"
proof -
  let ?ts = "filter (\<lambda>t. assigned_to_id t = Some (user_id s)) (tickets db)"
  show "support_user_id (support_report db sd ed s) = user_id s"
    by (simp add: support_report_def Let_def)
  have "average_response_minutes (support_report db sd ed s) = None \<longleftrightarrow> response_times ?ts = []"
    by (simp add: support_report_def Let_def)
  then show "average_response_minutes (support_report db sd ed s) = None \<longleftrightarrow>
     (\<forall>t\<in>set (tickets db). assigned_to_id t = Some (user_id s) \<longrightarrow> first_response_at t = None)"
    by (auto simp: response_times_empty)
  have "fastest_resolution_minutes (support_report db sd ed s) = None \<longleftrightarrow> resolution_times ?ts = []"
    by (simp add: support_report_def Let_def split: list.splits)
  then show "fastest_resolution_minutes (support_report db sd ed s) = None \<longleftrightarrow>
     (\<forall>t\<in>set (tickets db). assigned_to_id t = Some (user_id s) \<longrightarrow> resolved_at t = None)"
    by (auto simp: resolution_times_empty)
  have "slowest_resolution_minutes (support_report db sd ed s) = None \<longleftrightarrow> resolution_times ?ts = []"
    by (simp add: support_report_def Let_def split: list.splits)
  then show "slowest_resolution_minutes (support_report db sd ed s) = None \<longleftrightarrow>
     (\<forall>t\<in>set (tickets db). assigned_to_id t = Some (user_id s) \<longrightarrow> resolved_at t = None)"
    by (auto simp: resolution_times_empty)
qed

lemma support_report_no_tickets:
  assumes "\<forall>t\<in>set (tickets db). assigned_to_id t \<noteq> Some (user_id s)"
  shows "support_report db sd ed s =
     \<lparr>support_user_id = user_id s, support_email = email s, closed_this_week = 0,
      open_assigned = 0, average_response_minutes = None,
      fastest_resolution_minutes = None, slowest_resolution_minutes = None\<rparr>"
proof -
  from assms have "filter (\<lambda>t. assigned_to_id t = Some (user_id s)) (tickets db) = []"
    by (simp add: filter_empty_conv)
  then show ?thesis
    by (simp add: support_report_def Let_def response_times_def resolution_times_def)
qed

lemma department_report_authorized:
  assumes auth: "role u = admin \<or> role u = department \<and> user_department_id u = Some did"
    and dep: "db_get_department db did = Inr (Some d)"
    and week: "case ws of Some w \<Rightarrow> date_min \<le> w \<and> w + 7 \<le> date_max
               | None \<Rightarrow> date_min \<le> date_of now - 7 \<and> date_of now \<le> date_max"
  shows "department_report db did ws u now =
     Inr (\<lparr>report_department_id = did,
           week_start = (case ws of Some w \<Rightarrow> w | None \<Rightarrow> date_of now - 7),
           week_end = (case ws of Some w \<Rightarrow> w | None \<Rightarrow> date_of now - 7) + 7,
           supports = map (support_report db (case ws of Some w \<Rightarrow> w | None \<Rightarrow> date_of now - 7)
                             ((case ws of Some w \<Rightarrow> w | None \<Rightarrow> date_of now - 7) + 7))
                        (filter (\<lambda>s. role s = support \<and> user_department_id s = Some did)
                           (users db))\<rparr>, db)"
proof -
  from auth have g: "role u \<in> {department, admin}" by auto
  from auth have n: "\<not> (role u = department \<and> user_department_id u \<noteq> Some did)" by auto
  have r: "department_report db did ws u now =
     (case (case ws of Some d \<Rightarrow> Inr d | None \<Rightarrow> date_plus (date_of now) (- 7)) of
        Inl e \<Rightarrow> Inl e
      | Inr start_date \<Rightarrow>
          (case date_plus start_date 7 of
             Inl e \<Rightarrow> Inl e
           | Inr end_date \<Rightarrow>
               Inr (\<lparr>report_department_id = did, week_start = start_date, week_end = end_date,
                     supports = map (support_report db start_date end_date)
                        (filter (\<lambda>s. role s = support \<and> user_department_id s = Some did)
                           (users db))\<rparr>, db)))"
    unfolding department_report_def
    by (simp only: g n dep not_True_eq_False if_False option.case sum.case not_not Let_def)
  from week show ?thesis
    unfolding r by (cases ws) (simp_all add: date_plus_def)
qed

section \<open>The claims\<close>

text \<open>
  C1, as the code has it. The ticket id is one the store can hold (a signed 64-bit key) and
  no ticket has it. View, edit, status change, delete, comment and comment listing then
  answer 404 for every actor. The assignment checks the actor's role before it looks the
  ticket up: a department or admin actor gets 404, a student or support actor gets 403.
  The report takes a department, not a ticket, and likewise checks role and department
  first: on a missing department only an admin, or a department user asking for that very
  id, gets 404.
\<close>

theorem missing_ticket_not_found_after_role_check:
  "(db_get_ticket db tid = Inr None \<longrightarrow>
      get_ticket db tid u = http 404 ''Ticket not found''
    \<and> update_ticket db tid p u now nd = http 404 ''Ticket not found''
    \<and> update_ticket_status db tid st u now nd = http 404 ''Ticket not found''
    \<and> delete_ticket db tid u = http 404 ''Ticket not found''
    \<and> add_comment db tid c u i now nr nd nc = http 404 ''Ticket not found''
    \<and> list_comments db tid u = http 404 ''Ticket not found''
    \<and> assign_ticket db tid sid u now nd =
        (if role u \<in> {department, admin} then http 404 ''Ticket not found''
         else http 403 ''Only department/admin can assign tickets''))
   \<and> (db_get_department db did = Inr None \<longrightarrow>
        department_report db did ws u now =
          (if role u = admin \<or> role u = department \<and> user_department_id u = Some did
           then http 404 ''Department not found''
           else if role u = department then http 403 ''Not your department''
           else http 403 ''Only department/admin can view reports''))"
  by (cases "role u")
     (simp_all add: get_ticket_def update_ticket_def update_ticket_status_def delete_ticket_def
        add_comment_def list_comments_def assign_ticket_def department_report_def)

text \<open>Ticket 99 does not exist; the student who tries to assign it is told 403, not 404.\<close>

theorem assign_missing_ticket_counterexample:
  "db_get_ticket demo_db 99 = Inr None
   \<and> role demo_student = student
   \<and> assign_ticket demo_db 99 2 demo_student 5000 5001 =
       http 403 ''Only department/admin can assign tickets''"
  by (simp add: demo_get99 assign_ticket_def demo_student_def)

theorem missing_ticket_not_found_witness:
  "db_get_ticket demo_db 99 = Inr None
   \<and> delete_ticket demo_db 99 demo_student = http 404 ''Ticket not found''
   \<and> get_ticket demo_db 99 demo_support = http 404 ''Ticket not found''
   \<and> assign_ticket demo_db 99 2 demo_manager 5000 5001 = http 404 ''Ticket not found''"
proof -
  have m: "role demo_manager \<in> {department, admin}" by (simp add: demo_manager_def)
  from missing_ticket_not_found_after_role_check[where db = demo_db and tid = 99
      and u = demo_student]
    missing_ticket_not_found_after_role_check[where db = demo_db and tid = 99
      and u = demo_support]
    missing_ticket_not_found_after_role_check[where db = demo_db and tid = 99
      and u = demo_manager and sid = 2 and now = 5000 and nd = 5001]
    demo_get99 m
  show ?thesis by simp
qed

text \<open>
  C2. For a ticket in the store, each of the five mutations is answered for the actors and
  requests the handler admits, and every answer stamps \<^verbatim>\<open>updated_at\<close> with a clock
  reading of the request and stores the row. The edit (by an actor who may edit, on a
  ticket that is not closed, with at least one field and no null for a required column),
  the status change (by an actor who may change it), the comment (by an actor who may see
  the ticket) and the agent update (with the right secret) assign the handler's reading
  \<open>now\<close>; the row ends with it, or, when the stored row already held exactly that value,
  with the reading \<open>nd\<close> that the column's \<^verbatim>\<open>onupdate\<close> takes while flushing. The
  assignment (by an actor who may assign, to a support user of the ticket's department)
  does not assign the field itself: whenever it changes the assignee or the assignment
  time, the column's \<^verbatim>\<open>onupdate\<close> stamps the row with \<open>nd\<close>.
\<close>

theorem mutations_stamp_updated_at:
  assumes t: "db_get_ticket db tid = Inr (Some t)"
  shows "((role u = admin \<or> role u = student \<and> created_by_id t = user_id u
             \<or> role u = department \<and> user_department_id u = Some (department_id t))
           \<and> status t \<noteq> ticket_closed \<and> \<not> no_updates p \<and> \<not> stores_null p \<longrightarrow>
            (\<exists>t'. response (update_ticket db tid p u now nd) = Inr t'))
       \<and> (\<forall>t'. response (update_ticket db tid p u now nd) = Inr t' \<and> \<not> no_updates p \<longrightarrow>
            db_get_ticket (db_after db (update_ticket db tid p u now nd)) tid = Inr (Some t')
            \<and> (updated_at t' = now \<or> updated_at t = now \<and> updated_at t' = nd))
       \<and> (role u = admin \<or> role u = support \<and> assigned_to_id t = Some (user_id u)
            \<or> role u = department \<and> user_department_id u = Some (department_id t) \<longrightarrow>
            (\<exists>t'. response (update_ticket_status db tid st u now nd) = Inr t'))
       \<and> (\<forall>t'. response (update_ticket_status db tid st u now nd) = Inr t' \<longrightarrow>
            db_get_ticket (db_after db (update_ticket_status db tid st u now nd)) tid
              = Inr (Some t')
            \<and> (updated_at t' = now \<or> updated_at t = now \<and> updated_at t' = nd))
       \<and> ((role u = admin \<or> role u = department \<and> user_department_id u = Some (department_id t))
           \<and> (\<exists>s. db_get_user db sid = Inr (Some s) \<and> role s = support
                  \<and> user_department_id s = Some (department_id t)) \<longrightarrow>
            (\<exists>t'. response (assign_ticket db tid sid u now nd) = Inr t'))
       \<and> (\<forall>t'. response (assign_ticket db tid sid u now nd) = Inr t'
              \<and> (assigned_to_id t \<noteq> Some sid \<or> assigned_at t \<noteq> Some now) \<longrightarrow>
            db_get_ticket (db_after db (assign_ticket db tid sid u now nd)) tid = Inr (Some t')
            \<and> updated_at t' = nd)
       \<and> (ensure_ticket_visibility t u = None \<longrightarrow>
            (\<exists>cm. response (add_comment db tid c u i now nr nd nc) = Inr cm))
       \<and> (\<forall>cm. response (add_comment db tid c u i now nr nd nc) = Inr cm \<longrightarrow>
            (\<exists>t'. db_get_ticket (db_after db (add_comment db tid c u i now nr nd nc)) tid
                     = Inr (Some t')
               \<and> (updated_at t' = now \<or> updated_at t = now \<and> updated_at t' = nd)))
       \<and> (verify_internal_secret secret h = None \<longrightarrow>
            (\<exists>t'. response (internal_agent_update secret db tid ap h i now nd nc) = Inr t'))
       \<and> (\<forall>t'. response (internal_agent_update secret db tid ap h i now nd nc) = Inr t' \<longrightarrow>
            db_get_ticket (db_after db (internal_agent_update secret db tid ap h i now nd nc)) tid
              = Inr (Some t')
            \<and> (updated_at t' = now \<or> updated_at t = now \<and> updated_at t' = nd))"
proof (intro conjI allI impI)
  assume a: "(role u = admin \<or> role u = student \<and> created_by_id t = user_id u
             \<or> role u = department \<and> user_department_id u = Some (department_id t))
           \<and> status t \<noteq> ticket_closed \<and> \<not> no_updates p \<and> \<not> stores_null p"
  then have "update_ticket db tid p u now nd =
           Inr (commit_ticket db nd t ((setattrs p t)\<lparr>updated_at := now\<rparr>))"
    by (intro update_ticket_answers[OF t]) simp_all
  then show "\<exists>t'. response (update_ticket db tid p u now nd) = Inr t'"
    by (simp add: response_def split: prod.splits)
next
  fix t' assume a: "response (update_ticket db tid p u now nd) = Inr t' \<and> \<not> no_updates p"
  then obtain db' where a1: "update_ticket db tid p u now nd = Inr (t', db')"
    and a2: "\<not> no_updates p"
    by (auto simp: response_Inr)
  from update_ticket_Inr[OF t a1 a2]
  have e: "t' = orm_flush nd t ((setattrs p t)\<lparr>updated_at := now\<rparr>)"
    and g: "db_get_ticket db' tid = Inr (Some t')" by simp_all
  from g a1
  show "db_get_ticket (db_after db (update_ticket db tid p u now nd)) tid = Inr (Some t')"
    by simp
  show "updated_at t' = now \<or> updated_at t = now \<and> updated_at t' = nd"
    unfolding e by (rule flush_stamp) simp
next
  assume "role u = admin \<or> role u = support \<and> assigned_to_id t = Some (user_id u)
            \<or> role u = department \<and> user_department_id u = Some (department_id t)"
  from update_ticket_status_answers[OF t this]
  show "\<exists>t'. response (update_ticket_status db tid st u now nd) = Inr t'"
    by (simp add: response_def split: prod.splits)
next
  fix t' assume "response (update_ticket_status db tid st u now nd) = Inr t'"
  then obtain db' where a: "update_ticket_status db tid st u now nd = Inr (t', db')"
    by (auto simp: response_Inr)
  from update_ticket_status_Inr[OF t a]
  have e: "t' = orm_flush nd t (set_status t st now)"
    and g: "db_get_ticket db' tid = Inr (Some t')" by simp_all
  from g a
  show "db_get_ticket (db_after db (update_ticket_status db tid st u now nd)) tid
          = Inr (Some t')"
    by simp
  show "updated_at t' = now \<or> updated_at t = now \<and> updated_at t' = nd"
    unfolding e by (rule flush_stamp) simp
next
  assume a: "(role u = admin \<or> role u = department \<and> user_department_id u = Some (department_id t))
           \<and> (\<exists>s. db_get_user db sid = Inr (Some s) \<and> role s = support
                  \<and> user_department_id s = Some (department_id t))"
  then obtain s where s: "db_get_user db sid = Inr (Some s)" "role s = support"
      "user_department_id s = Some (department_id t)"
    by blast
  from a have auth: "role u = admin \<or> role u = department
      \<and> user_department_id u = Some (department_id t)"
    by simp
  from assign_ticket_answers[OF t auth s]
  show "\<exists>t'. response (assign_ticket db tid sid u now nd) = Inr t'" .
next
  fix t' assume a: "response (assign_ticket db tid sid u now nd) = Inr t'
              \<and> (assigned_to_id t \<noteq> Some sid \<or> assigned_at t \<noteq> Some now)"
  then obtain db' where a1: "assign_ticket db tid sid u now nd = Inr (t', db')"
    and ne: "assigned_to_id t \<noteq> Some sid \<or> assigned_at t \<noteq> Some now"
    by (auto simp: response_Inr)
  from assign_ticket_Inr[OF t a1] a1
  show "db_get_ticket (db_after db (assign_ticket db tid sid u now nd)) tid = Inr (Some t')"
    by simp
  from assign_ticket_Inr[OF t a1]
  have e: "t' = orm_flush nd t (t\<lparr>assigned_to_id := Some sid, assigned_at := Some now\<rparr>)"
    by simp
  from ne have "t\<lparr>assigned_to_id := Some sid, assigned_at := Some now\<rparr> \<noteq> t"
    by (simp add: assign_row_unchanged)
  then show "updated_at t' = nd" unfolding e by (simp add: orm_flush_def)
next
  assume "ensure_ticket_visibility t u = None"
  from add_comment_answers[OF t this]
  show "\<exists>cm. response (add_comment db tid c u i now nr nd nc) = Inr cm" .
next
  fix cm assume "response (add_comment db tid c u i now nr nd nc) = Inr cm"
  then obtain db' where a: "add_comment db tid c u i now nr nd nc = Inr (cm, db')"
    by (auto simp: response_Inr)
  from add_comment_Inr[OF t a] a
  have g: "db_get_ticket (db_after db (add_comment db tid c u i now nr nd nc)) tid
             = Inr (Some (orm_flush nd t (touch_for_comment t u now nr)))"
    by simp
  have "updated_at (orm_flush nd t (touch_for_comment t u now nr)) = now
        \<or> updated_at t = now \<and> updated_at (orm_flush nd t (touch_for_comment t u now nr)) = nd"
    by (rule flush_stamp) simp
  with g
  show "\<exists>t'. db_get_ticket (db_after db (add_comment db tid c u i now nr nd nc)) tid
                = Inr (Some t')
               \<and> (updated_at t' = now \<or> updated_at t = now \<and> updated_at t' = nd)"
    by blast
next
  assume "verify_internal_secret secret h = None"
  from internal_agent_update_answers[OF t this]
  show "\<exists>t'. response (internal_agent_update secret db tid ap h i now nd nc) = Inr t'" .
next
  fix t' assume "response (internal_agent_update secret db tid ap h i now nd nc) = Inr t'"
  then obtain db' where
    a: "internal_agent_update secret db tid ap h i now nd nc = Inr (t', db')"
    by (auto simp: response_Inr)
  from internal_agent_update_Inr[OF t a]
  have e: "t' = orm_flush nd t (agent_setattrs ap t now)"
    and g: "db_get_ticket db' tid = Inr (Some t')" by simp_all
  from g a
  show "db_get_ticket (db_after db (internal_agent_update secret db tid ap h i now nd nc)) tid
          = Inr (Some t')"
    by simp
  show "updated_at t' = now \<or> updated_at t = now \<and> updated_at t' = nd"
    unfolding e by (rule flush_stamp) simp
qed

text \<open>
  All five on sample ticket 1, whose \<^verbatim>\<open>updated_at\<close> is 1000, each with handler reading
  5000: the creator's edit of the title, the admin's move to in-progress, the support
  user's comment and the agent's update leave 5000; the admin's assignment, flushed at
  5001, leaves 5001.
\<close>

theorem mutations_stamp_updated_at_witness:
  "db_get_ticket demo_db 1 = Inr (Some demo_ticket)
   \<and> updated_at demo_ticket = 1000
   \<and> response (update_ticket demo_db 1 demo_edit demo_student 5000 5001) =
       Inr (demo_ticket\<lparr>title := ''WiFi yurt'', updated_at := 5000\<rparr>)
   \<and> response (update_ticket_status demo_db 1 in_progress demo_admin 5000 5001) =
       Inr (demo_ticket\<lparr>status := in_progress, updated_at := 5000,
                         first_response_at := Some 5000\<rparr>)
   \<and> response (assign_ticket demo_db 1 2 demo_admin 5000 5001) =
       Inr (demo_ticket\<lparr>assigned_to_id := Some 2, updated_at := 5001,
                         assigned_at := Some 5000\<rparr>)
   \<and> db_get_ticket (db_after demo_db
         (add_comment demo_db 1 ''bakiyorum'' demo_support 1 5000 5001 5002 5003)) 1 =
       Inr (Some (demo_ticket\<lparr>updated_at := 5000, first_response_at := Some 5001\<rparr>))
   \<and> response (internal_agent_update ''dev-internal-secret'' demo_db 1 demo_agent_update
         (Some ''dev-internal-secret'') 1 5000 5001 5002) =
       Inr (demo_ticket\<lparr>category := Some ''Internet'', assigned_unit := Some ''Network'',
                         updated_at := 5000\<rparr>)"
proof -
  have r0: "response (update_ticket demo_db 1 demo_edit demo_student 5000 5001) =
       Inr (demo_ticket\<lparr>title := ''WiFi yurt'', updated_at := 5000\<rparr>)"
    by code_simp
  have r1: "response (update_ticket_status demo_db 1 in_progress demo_admin 5000 5001) =
       Inr (demo_ticket\<lparr>status := in_progress, updated_at := 5000,
                         first_response_at := Some 5000\<rparr>)"
    by code_simp
  have r2: "response (assign_ticket demo_db 1 2 demo_admin 5000 5001) =
       Inr (demo_ticket\<lparr>assigned_to_id := Some 2, updated_at := 5001,
                         assigned_at := Some 5000\<rparr>)"
    by code_simp
  have r3: "db_get_ticket (db_after demo_db
         (add_comment demo_db 1 ''bakiyorum'' demo_support 1 5000 5001 5002 5003)) 1 =
       Inr (Some (demo_ticket\<lparr>updated_at := 5000, first_response_at := Some 5001\<rparr>))"
    by code_simp
  have r4: "response (internal_agent_update ''dev-internal-secret'' demo_db 1 demo_agent_update
         (Some ''dev-internal-secret'') 1 5000 5001 5002) =
       Inr (demo_ticket\<lparr>category := Some ''Internet'', assigned_unit := Some ''Network'',
                         updated_at := 5000\<rparr>)"
    by code_simp
  have v: "ensure_ticket_visibility demo_ticket demo_support = None" by code_simp
  have k: "verify_internal_secret ''dev-internal-secret'' (Some ''dev-internal-secret'') = None"
    by code_simp
  have ne: "assigned_to_id demo_ticket \<noteq> Some 2 \<or> assigned_at demo_ticket \<noteq> Some 5000"
    by (simp add: demo_ticket_def)
  note m = mutations_stamp_updated_at[OF demo_get1, where p = demo_edit and u = demo_admin
      and st = in_progress and now = 5000 and nd = 5001 and sid = 2]
  note m' = mutations_stamp_updated_at[OF demo_get1, where u = demo_support
      and c = "''bakiyorum''" and i = 1 and now = 5000 and nr = 5001 and nd = 5002 and nc = 5003]
  note m'' = mutations_stamp_updated_at[OF demo_get1, where secret = "''dev-internal-secret''"
      and h = "Some ''dev-internal-secret''" and ap = demo_agent_update and i = 1
      and now = 5000 and nd = 5001 and nc = 5002]
  from m r2 ne have "updated_at (demo_ticket\<lparr>assigned_to_id := Some 2, updated_at := 5001,
                         assigned_at := Some 5000\<rparr>) = 5001"
    by blast
  moreover from m' v
  have "\<exists>cm. response (add_comment demo_db 1 ''bakiyorum'' demo_support 1 5000 5001 5002 5003)
          = Inr cm"
    by blast
  moreover from m'' k
  have "\<exists>t'. response (internal_agent_update ''dev-internal-secret'' demo_db 1 demo_agent_update
         (Some ''dev-internal-secret'') 1 5000 5001 5002) = Inr t'"
    by blast
  ultimately show ?thesis using demo_get1 r0 r1 r2 r3 r4 by (simp add: demo_ticket_def)
qed

text \<open>
  C3, as the code has it. A support actor is refused with 403. Every other actor, student,
  department or admin, creates a ticket in whatever department the request names, own or
  not, as long as that department exists; a department id that the store can hold and no
  department has is a 404. The new ticket is open, carries the requested department and
  the actor as creator, and is added to the store.
\<close>

theorem create_ticket_role_check:
  "(role u = support \<longrightarrow>
      create_ticket db p u i n1 n2 = http 403 ''Support users cannot create tickets'')
   \<and> (role u \<noteq> support \<and> db_get_department db (create_department_id p) = Inr None \<longrightarrow>
      create_ticket db p u i n1 n2 = http 404 ''Department not found'')
   \<and> (role u \<noteq> support \<and> (\<exists>d. db_get_department db (create_department_id p) = Inr (Some d)) \<longrightarrow>
      (\<exists>t. response (create_ticket db p u i n1 n2) = Inr t
          \<and> department_id t = create_department_id p \<and> created_by_id t = user_id u
          \<and> status t = ticket_open \<and> title t = create_title p
          \<and> description t = create_description p \<and> priority t = create_priority p
          \<and> tickets (db_after db (create_ticket db p u i n1 n2)) = tickets db @ [t]))"
  by (auto simp: create_ticket_def response_def Let_def)

text \<open>
  The manager of department 1 files a ticket against department 2, and it is created.
\<close>

theorem create_ticket_other_department_counterexample:
  "role demo_manager = department
   \<and> user_department_id demo_manager = Some 1
   \<and> create_department_id demo_request = 2
   \<and> response (create_ticket demo_db demo_request demo_manager 3 5000 5001) =
       Inr \<lparr>ticket_id = 3, title = ''Asansor'', description = ''asansor calismiyor'',
            category = None, assigned_unit = None, priority = medium, status = ticket_open,
            department_id = 2, created_by_id = 3, assigned_to_id = None, created_at = 5000,
            updated_at = 5001, first_response_at = None, resolved_at = None,
            closed_at = None, assigned_at = None\<rparr>"
  by code_simp

theorem create_ticket_role_check_witness:
  "role demo_support = support
   \<and> create_ticket demo_db demo_request demo_support 3 5000 5001 =
       http 403 ''Support users cannot create tickets''
   \<and> role demo_student \<noteq> support
   \<and> db_get_department demo_db (create_department_id demo_request) =
       Inr (Some \<lparr>dept_id = 2, dept_name = ''Yapi Isleri'', dept_description = None\<rparr>)
   \<and> (\<exists>t. response (create_ticket demo_db demo_request demo_student 3 5000 5001) = Inr t
          \<and> department_id t = 2 \<and> created_by_id t = 1 \<and> status t = ticket_open)"
proof -
  have a: "role demo_support = support" by (simp add: demo_support_def)
  have b: "role demo_student \<noteq> support" by (simp add: demo_student_def)
  have c: "db_get_department demo_db (create_department_id demo_request) =
       Inr (Some \<lparr>dept_id = 2, dept_name = ''Yapi Isleri'', dept_description = None\<rparr>)"
    by code_simp
  have d: "create_department_id demo_request = 2" "user_id demo_student = 1"
    by (simp_all add: demo_request_def demo_student_def)
  from create_ticket_role_check[of demo_support demo_db demo_request 3 5000 5001]
    create_ticket_role_check[of demo_student demo_db demo_request 3 5000 5001] a b c d
  show ?thesis by auto
qed

text \<open>
  C4. For a ticket in the store, a status change by an actor who may change it (an admin,
  the support user the ticket is assigned to, a department user of the ticket's
  department) is answered. Every answer has the new status; its \<^verbatim>\<open>resolved_at\<close> is the
  handler's clock reading when the new status is resolved or closed and the field was
  null, and the old value otherwise; its \<^verbatim>\<open>closed_at\<close> is that reading whenever the new
  status is closed, whatever it held before, and the old value otherwise. The row is
  stored as answered.
\<close>

theorem status_transition_stamps:
  assumes t: "db_get_ticket db tid = Inr (Some t)"
  shows "(role u = admin \<or> role u = support \<and> assigned_to_id t = Some (user_id u)
            \<or> role u = department \<and> user_department_id u = Some (department_id t) \<longrightarrow>
            (\<exists>t'. response (update_ticket_status db tid st u now nd) = Inr t'))
       \<and> (\<forall>t'. response (update_ticket_status db tid st u now nd) = Inr t' \<longrightarrow>
            resolved_at t' = (if st \<in> {resolved, ticket_closed} \<and> resolved_at t = None
                              then Some now else resolved_at t)
            \<and> closed_at t' = (if st = ticket_closed then Some now else closed_at t)
            \<and> status t' = st
            \<and> db_get_ticket (db_after db (update_ticket_status db tid st u now nd)) tid
                = Inr (Some t'))"
proof (intro conjI allI impI)
  assume "role u = admin \<or> role u = support \<and> assigned_to_id t = Some (user_id u)
            \<or> role u = department \<and> user_department_id u = Some (department_id t)"
  from update_ticket_status_answers[OF t this]
  show "\<exists>t'. response (update_ticket_status db tid st u now nd) = Inr t'"
    by (simp add: response_def split: prod.splits)
next
  fix t' assume "response (update_ticket_status db tid st u now nd) = Inr t'"
  then obtain db' where e: "update_ticket_status db tid st u now nd = Inr (t', db')"
    by (auto simp: response_Inr)
  note r = update_ticket_status_Inr[OF t e]
  from r show "resolved_at t' = (if st \<in> {resolved, ticket_closed} \<and> resolved_at t = None
                              then Some now else resolved_at t)"
    by simp
  from r show "closed_at t' = (if st = ticket_closed then Some now else closed_at t)" by simp
  from r show "status t' = st" by simp
  from r e
  show "db_get_ticket (db_after db (update_ticket_status db tid st u now nd)) tid
          = Inr (Some t')"
    by simp
qed

text \<open>
  Sample ticket 1 was never resolved: the manager resolves it at 5000 and \<^verbatim>\<open>resolved_at\<close>
  becomes 5000. The closed sample ticket was resolved at 3000 and closed at 4000: closing
  it again at 5000 moves \<^verbatim>\<open>closed_at\<close> to 5000 and leaves \<^verbatim>\<open>resolved_at\<close> at 3000.
\<close>

theorem status_transition_stamps_witness:
  "db_get_ticket demo_db 1 = Inr (Some demo_ticket)
   \<and> resolved_at demo_ticket = None
   \<and> role demo_manager = department
   \<and> user_department_id demo_manager = Some (department_id demo_ticket)
   \<and> response (update_ticket_status demo_db 1 resolved demo_manager 5000 5001) =
       Inr (demo_ticket\<lparr>status := resolved, updated_at := 5000, resolved_at := Some 5000\<rparr>)
   \<and> db_get_ticket demo_db 2 = Inr (Some demo_closed_ticket)
   \<and> response (update_ticket_status demo_db 2 ticket_closed demo_admin 5000 5001) =
       Inr (demo_closed_ticket\<lparr>updated_at := 5000, closed_at := Some 5000\<rparr>)
   \<and> closed_at demo_closed_ticket = Some 4000
   \<and> resolved_at (demo_closed_ticket\<lparr>updated_at := 5000, closed_at := Some 5000\<rparr>) = Some 3000"
proof -
  have m: "role demo_manager = admin
      \<or> role demo_manager = support \<and> assigned_to_id demo_ticket = Some (user_id demo_manager)
      \<or> role demo_manager = department
          \<and> user_department_id demo_manager = Some (department_id demo_ticket)"
    by (simp add: demo_manager_def demo_ticket_def)
  have r1: "response (update_ticket_status demo_db 1 resolved demo_manager 5000 5001) =
       Inr (demo_ticket\<lparr>status := resolved, updated_at := 5000, resolved_at := Some 5000\<rparr>)"
    by code_simp
  have r2: "response (update_ticket_status demo_db 2 ticket_closed demo_admin 5000 5001) =
       Inr (demo_closed_ticket\<lparr>updated_at := 5000, closed_at := Some 5000\<rparr>)"
    by code_simp
  note s1 = status_transition_stamps[OF demo_get1, of demo_manager resolved 5000 5001]
  note s2 = status_transition_stamps[OF demo_get2, of demo_admin ticket_closed 5000 5001]
  from s1 m have "\<exists>t'. response (update_ticket_status demo_db 1 resolved demo_manager 5000 5001)
                    = Inr t'"
    by blast
  moreover from s2 r2
  have "resolved_at (demo_closed_ticket\<lparr>updated_at := 5000, closed_at := Some 5000\<rparr>)
          = (if ticket_closed \<in> {resolved, ticket_closed} \<and> resolved_at demo_closed_ticket = None
             then Some 5000 else resolved_at demo_closed_ticket)"
    by blast
  ultimately show ?thesis
    using demo_get1 demo_get2 r1 r2 by (simp add: demo_ticket_def demo_closed_ticket_def demo_manager_def)
qed

text \<open>
  C5, as the code has it. An edit of a closed ticket never succeeds and leaves the store
  as it was. The role checks come first: an actor they admit (an admin, the student who
  created the ticket, a department user of the ticket's department) gets 400, closed
  tickets cannot be edited, with no exemption for the admin; every other actor gets 403.
\<close>

theorem closed_ticket_edit_rejected:
  assumes "db_get_ticket db tid = Inr (Some t)" and "status t = ticket_closed"
  shows "(role u = admin \<or> role u = student \<and> created_by_id t = user_id u
            \<or> role u = department \<and> user_department_id u = Some (department_id t)
          \<longrightarrow> update_ticket db tid p u now nd = http 400 ''Closed tickets cannot be edited'')
       \<and> (\<not> (role u = admin \<or> role u = student \<and> created_by_id t = user_id u
              \<or> role u = department \<and> user_department_id u = Some (department_id t))
          \<longrightarrow> (\<exists>msg. update_ticket db tid p u now nd = http 403 msg))
       \<and> db_after db (update_ticket db tid p u now nd) = db"
  using assms by (cases "role u") (auto simp: update_ticket_def)

text \<open>
  The support user of the closed sample ticket's department, who is also its assignee,
  tries to edit it: the answer is 403, not 400.
\<close>

theorem closed_ticket_edit_support_counterexample:
  "db_get_ticket demo_db 2 = Inr (Some demo_closed_ticket)
   \<and> status demo_closed_ticket = ticket_closed
   \<and> role demo_support = support
   \<and> update_ticket demo_db 2 empty_update demo_support 5000 5001 =
       http 403 ''Support users cannot edit tickets''"
  by (simp add: demo_get2 update_ticket_def demo_support_def demo_closed_ticket_def)

theorem closed_ticket_edit_rejected_witness:
  "db_get_ticket demo_db 2 = Inr (Some demo_closed_ticket)
   \<and> status demo_closed_ticket = ticket_closed
   \<and> role demo_admin = admin
   \<and> update_ticket demo_db 2 empty_update demo_admin 5000 5001 =
       http 400 ''Closed tickets cannot be edited''
   \<and> db_after demo_db (update_ticket demo_db 2 empty_update demo_admin 5000 5001) = demo_db"
proof -
  have s: "status demo_closed_ticket = ticket_closed" by (simp add: demo_closed_ticket_def)
  have a: "role demo_admin = admin" by (simp add: demo_admin_def)
  from closed_ticket_edit_rejected[OF demo_get2 s, of demo_admin empty_update 5000 5001]
    demo_get2 s a
  show ?thesis by simp
qed

text \<open>
  C6. For a ticket in the store: a status change by an actor who may change it is
  answered, and every answer sets \<^verbatim>\<open>first_response_at\<close> to the handler's clock reading
  exactly when the new status is in-progress and the field was null, and leaves it alone
  otherwise; so two transitions to in-progress in a row are both answered, the field is
  set after the first and the second does not change it. A comment by an actor who may
  see the ticket is answered, and every answer sets the field to the clock reading taken
  for it exactly when the author is a support user and the field was null, and does not
  touch the status. And whatever the request, a ticket whose \<^verbatim>\<open>first_response_at\<close> is set
  and which is still in the store afterwards has the same value there.
\<close>

theorem first_response_write_once:
  assumes t: "db_get_ticket db tid = Inr (Some t)"
  shows "(role u = admin \<or> role u = support \<and> assigned_to_id t = Some (user_id u)
            \<or> role u = department \<and> user_department_id u = Some (department_id t) \<longrightarrow>
            (\<exists>t'. response (update_ticket_status db tid st u now nd) = Inr t'))
       \<and> (\<forall>t'. response (update_ticket_status db tid st u now nd) = Inr t' \<longrightarrow>
            first_response_at t' =
              (if st = in_progress \<and> first_response_at t = None then Some now
               else first_response_at t))
       \<and> ((role u = admin \<or> role u = support \<and> assigned_to_id t = Some (user_id u)
              \<or> role u = department \<and> user_department_id u = Some (department_id t))
            \<and> (role u2 = admin \<or> role u2 = support \<and> assigned_to_id t = Some (user_id u2)
              \<or> role u2 = department \<and> user_department_id u2 = Some (department_id t)) \<longrightarrow>
            (\<exists>t1 t2. response (update_ticket_status db tid in_progress u now nd) = Inr t1
               \<and> response (update_ticket_status
                    (db_after db (update_ticket_status db tid in_progress u now nd))
                    tid in_progress u2 now2 nd2) = Inr t2))
       \<and> (\<forall>t1 t2. response (update_ticket_status db tid in_progress u now nd) = Inr t1
              \<and> response (update_ticket_status
                   (db_after db (update_ticket_status db tid in_progress u now nd))
                   tid in_progress u2 now2 nd2) = Inr t2 \<longrightarrow>
            first_response_at t1 \<noteq> None \<and> first_response_at t2 = first_response_at t1)
       \<and> (ensure_ticket_visibility t u = None \<longrightarrow>
            (\<exists>cm. response (add_comment db tid c u i now nr nd nc) = Inr cm))
       \<and> (\<forall>cm. response (add_comment db tid c u i now nr nd nc) = Inr cm \<longrightarrow>
            (\<exists>t'. db_get_ticket (db_after db (add_comment db tid c u i now nr nd nc)) tid
                     = Inr (Some t')
               \<and> first_response_at t' =
                   (if role u = support \<and> first_response_at t = None then Some nr
                    else first_response_at t)
               \<and> status t' = status t))
       \<and> (\<forall>x t'. first_response_at t = Some x
              \<and> db_get_ticket (serve secret db ev) tid = Inr (Some t') \<longrightarrow>
            first_response_at t' = Some x)"
proof (intro conjI allI impI)
  assume "role u = admin \<or> role u = support \<and> assigned_to_id t = Some (user_id u)
            \<or> role u = department \<and> user_department_id u = Some (department_id t)"
  from update_ticket_status_answers[OF t this]
  show "\<exists>t'. response (update_ticket_status db tid st u now nd) = Inr t'"
    by (simp add: response_def split: prod.splits)
next
  fix t' assume "response (update_ticket_status db tid st u now nd) = Inr t'"
  then obtain db' where a: "update_ticket_status db tid st u now nd = Inr (t', db')"
    by (auto simp: response_Inr)
  from update_ticket_status_Inr[OF t a]
  show "first_response_at t' =
          (if st = in_progress \<and> first_response_at t = None then Some now
           else first_response_at t)"
    by simp
next
  assume auth: "(role u = admin \<or> role u = support \<and> assigned_to_id t = Some (user_id u)
              \<or> role u = department \<and> user_department_id u = Some (department_id t))
            \<and> (role u2 = admin \<or> role u2 = support \<and> assigned_to_id t = Some (user_id u2)
              \<or> role u2 = department \<and> user_department_id u2 = Some (department_id t))"
  then have a1: "role u = admin \<or> role u = support \<and> assigned_to_id t = Some (user_id u)
              \<or> role u = department \<and> user_department_id u = Some (department_id t)"
    and a2: "role u2 = admin \<or> role u2 = support \<and> assigned_to_id t = Some (user_id u2)
              \<or> role u2 = department \<and> user_department_id u2 = Some (department_id t)"
    by simp_all
  obtain t1 db1 where c: "commit_ticket db nd t (set_status t in_progress now) = (t1, db1)"
    by force
  with update_ticket_status_answers[OF t a1]
  have e1: "update_ticket_status db tid in_progress u now nd = Inr (t1, db1)" by simp
  note h1 = update_ticket_status_Inr[OF t e1]
  from h1 have g1: "db_get_ticket db1 tid = Inr (Some t1)" by simp
  from h1 have same: "assigned_to_id t1 = assigned_to_id t" "department_id t1 = department_id t"
    by (simp_all add: set_status_def Let_def)
  from a2 same
  have a2': "role u2 = admin \<or> role u2 = support \<and> assigned_to_id t1 = Some (user_id u2)
              \<or> role u2 = department \<and> user_department_id u2 = Some (department_id t1)"
    by simp
  from update_ticket_status_answers[OF g1 a2']
  have "\<exists>t2. response (update_ticket_status db1 tid in_progress u2 now2 nd2) = Inr t2"
    by (simp add: response_def split: prod.splits)
  with e1
  show "\<exists>t1 t2. response (update_ticket_status db tid in_progress u now nd) = Inr t1
               \<and> response (update_ticket_status
                    (db_after db (update_ticket_status db tid in_progress u now nd))
                    tid in_progress u2 now2 nd2) = Inr t2"
    by (simp add: response_def)
next
  fix t1 t2
  assume both: "response (update_ticket_status db tid in_progress u now nd) = Inr t1
      \<and> response (update_ticket_status
           (db_after db (update_ticket_status db tid in_progress u now nd))
           tid in_progress u2 now2 nd2) = Inr t2"
  then obtain db1 where a1: "update_ticket_status db tid in_progress u now nd = Inr (t1, db1)"
    by (auto simp: response_Inr)
  with both obtain db2 where
    a2: "update_ticket_status db1 tid in_progress u2 now2 nd2 = Inr (t2, db2)"
    by (auto simp: response_Inr)
  note h1 = update_ticket_status_Inr[OF t a1]
  from h1 have g1: "db_get_ticket db1 tid = Inr (Some t1)" by simp
  note h2 = update_ticket_status_Inr[OF g1 a2]
  from h1 have f1: "first_response_at t1 =
      (if first_response_at t = None then Some now else first_response_at t)"
    by simp
  then show n1: "first_response_at t1 \<noteq> None" by (simp split: if_splits)
  from h2 n1 show "first_response_at t2 = first_response_at t1" by simp
next
  assume "ensure_ticket_visibility t u = None"
  from add_comment_answers[OF t this]
  show "\<exists>cm. response (add_comment db tid c u i now nr nd nc) = Inr cm" .
next
  fix cm assume "response (add_comment db tid c u i now nr nd nc) = Inr cm"
  then obtain db' where a: "add_comment db tid c u i now nr nd nc = Inr (cm, db')"
    by (auto simp: response_Inr)
  from add_comment_Inr[OF t a] a
  have "db_get_ticket (db_after db (add_comment db tid c u i now nr nd nc)) tid
          = Inr (Some (orm_flush nd t (touch_for_comment t u now nr)))"
    by simp
  then show "\<exists>t'. db_get_ticket (db_after db (add_comment db tid c u i now nr nd nc)) tid
                     = Inr (Some t')
               \<and> first_response_at t' =
                   (if role u = support \<and> first_response_at t = None then Some nr
                    else first_response_at t)
               \<and> status t' = status t"
    by simp
next
  fix x t'
  assume "first_response_at t = Some x
      \<and> db_get_ticket (serve secret db ev) tid = Inr (Some t')"
  then have x: "first_response_at t = Some x"
    and a: "db_get_ticket (serve secret db ev) tid = Inr (Some t')"
    by simp_all
  from serve_keeps_first_response[OF t x a] show "first_response_at t' = Some x" .
qed

text \<open>
  Sample ticket 1 has no first response. Moving it to in-progress at 5000 sets the field
  to 5000, and moving the stored row to in-progress again at 7000 leaves 5000. A comment
  of the department's support user on the untouched ticket, with the clock read at 8001
  for the field, sets it to 8001 and leaves the ticket open. The closed sample ticket
  answered first at 2000; a support comment on it at 8000 leaves 2000.
\<close>

theorem first_response_write_once_witness:
  "db_get_ticket demo_db 1 = Inr (Some demo_ticket)
   \<and> first_response_at demo_ticket = None
   \<and> response (update_ticket_status demo_db 1 in_progress demo_admin 5000 5001) =
       Inr (demo_ticket\<lparr>status := in_progress, updated_at := 5000,
                         first_response_at := Some 5000\<rparr>)
   \<and> response (update_ticket_status
        (db_after demo_db (update_ticket_status demo_db 1 in_progress demo_admin 5000 5001))
        1 in_progress demo_manager 7000 7001) =
       Inr (demo_ticket\<lparr>status := in_progress, updated_at := 7000,
                         first_response_at := Some 5000\<rparr>)
   \<and> role demo_support = support
   \<and> ensure_ticket_visibility demo_ticket demo_support = None
   \<and> db_get_ticket (db_after demo_db
         (add_comment demo_db 1 ''bakiyorum'' demo_support 1 8000 8001 8002 8003)) 1 =
       Inr (Some (demo_ticket\<lparr>updated_at := 8000, first_response_at := Some 8001\<rparr>))
   \<and> status (demo_ticket\<lparr>updated_at := 8000, first_response_at := Some 8001\<rparr>) = ticket_open
   \<and> db_get_ticket demo_db 2 = Inr (Some demo_closed_ticket)
   \<and> first_response_at demo_closed_ticket = Some 2000
   \<and> db_get_ticket
        (serve ''s'' demo_db (AddComment 2 ''bakiyorum'' demo_support 1 8000 8001 8002 8003)) 2 =
       Inr (Some (demo_closed_ticket\<lparr>updated_at := 8000\<rparr>))
   \<and> first_response_at (demo_closed_ticket\<lparr>updated_at := 8000\<rparr>) = Some 2000"
proof -
  have n: "first_response_at demo_ticket = None" by (simp add: demo_ticket_def)
  have r1: "response (update_ticket_status demo_db 1 in_progress demo_admin 5000 5001) =
       Inr (demo_ticket\<lparr>status := in_progress, updated_at := 5000,
                         first_response_at := Some 5000\<rparr>)"
    by code_simp
  have r2: "response (update_ticket_status
        (db_after demo_db (update_ticket_status demo_db 1 in_progress demo_admin 5000 5001))
        1 in_progress demo_manager 7000 7001) =
       Inr (demo_ticket\<lparr>status := in_progress, updated_at := 7000,
                         first_response_at := Some 5000\<rparr>)"
    by code_simp
  have v: "ensure_ticket_visibility demo_ticket demo_support = None" by code_simp
  have rc: "db_get_ticket (db_after demo_db
         (add_comment demo_db 1 ''bakiyorum'' demo_support 1 8000 8001 8002 8003)) 1 =
       Inr (Some (demo_ticket\<lparr>updated_at := 8000, first_response_at := Some 8001\<rparr>))"
    by code_simp
  have f: "first_response_at demo_closed_ticket = Some 2000"
    by (simp add: demo_closed_ticket_def)
  have r3: "db_get_ticket
        (serve ''s'' demo_db (AddComment 2 ''bakiyorum'' demo_support 1 8000 8001 8002 8003)) 2 =
       Inr (Some (demo_closed_ticket\<lparr>updated_at := 8000\<rparr>))"
    by code_simp
  note m1 = first_response_write_once[OF demo_get1, where st = in_progress and u = demo_admin
      and now = 5000 and nd = 5001 and ?u2.0 = demo_manager and ?now2.0 = 7000
      and ?nd2.0 = 7001]
  note mc = first_response_write_once[OF demo_get1, where u = demo_support
      and c = "''bakiyorum''" and i = 1 and now = 8000 and nr = 8001 and nd = 8002
      and nc = 8003]
  note m2 = first_response_write_once[OF demo_get2, where secret = "''s''"
      and ev = "AddComment 2 ''bakiyorum'' demo_support 1 8000 8001 8002 8003"]
  from m1 r1 r2
  have "first_response_at (demo_ticket\<lparr>status := in_progress, updated_at := 7000,
                         first_response_at := Some 5000\<rparr>)
        = first_response_at (demo_ticket\<lparr>status := in_progress, updated_at := 5000,
                         first_response_at := Some 5000\<rparr>)"
    by blast
  moreover from mc v
  have "\<exists>cm. response (add_comment demo_db 1 ''bakiyorum'' demo_support 1 8000 8001 8002 8003)
          = Inr cm"
    by blast
  moreover from m2 f r3
  have "first_response_at (demo_closed_ticket\<lparr>updated_at := 8000\<rparr>) = Some 2000"
    by blast
  ultimately show ?thesis
    using demo_get1 demo_get2 n r1 r2 v rc f r3
    by (simp add: demo_support_def demo_ticket_def)
qed



text \<open>
  C8. The keyword fallback is a total function of the description text (and of the
  runtime's \<^verbatim>\<open>str.lower\<close>), so it never raises and equal texts get equal results. The
  category is one of four non-empty labels; the priority is one of low, medium, high: it
  is high exactly when an urgency keyword occurs in the lowercased text, medium exactly
  when none does and a delay keyword occurs, and low exactly when neither kind occurs.
  The agent service's copies return the same category and the same priority, as its
  string value.
\<close>

theorem classification_fallback:
  "simple_category_guess lw t \<noteq> []
   \<and> simple_category_guess lw t \<in> {''Internet'', ''Donanim'', ''Ogrenci Islemleri'', ''Genel''}
   \<and> simple_priority_guess lw t \<in> {low, medium, high}
   \<and> (simple_priority_guess lw t = high \<longleftrightarrow> (\<exists>k\<in>set urgency_keywords. occurs_in k (lw t)))
   \<and> (simple_priority_guess lw t = medium \<longleftrightarrow>
        \<not> (\<exists>k\<in>set urgency_keywords. occurs_in k (lw t))
        \<and> (\<exists>k\<in>set delay_keywords. occurs_in k (lw t)))
   \<and> (simple_priority_guess lw t = low \<longleftrightarrow>
        \<not> (\<exists>k\<in>set urgency_keywords. occurs_in k (lw t))
        \<and> \<not> (\<exists>k\<in>set delay_keywords. occurs_in k (lw t)))
   \<and> heuristic_priority lw t = priority_value (simple_priority_guess lw t)
   \<and> heuristic_priority lw t \<in> {''low'', ''medium'', ''high''}
   \<and> heuristic_category lw t = simple_category_guess lw t"
  unfolding simple_category_guess_def simple_priority_guess_def heuristic_priority_def
    heuristic_category_def Let_def any_in_iff urgency_keywords_def delay_keywords_def
  by simp

theorem classification_fallback_witness:
  "simple_priority_guess ascii_lower ''WiFi KOPUYOR yurt'' = high
   \<and> simple_category_guess ascii_lower ''WiFi KOPUYOR yurt'' = ''Internet''
   \<and> heuristic_priority ascii_lower ''WiFi KOPUYOR yurt'' = ''high''
   \<and> (\<exists>k\<in>set urgency_keywords. occurs_in k (ascii_lower ''WiFi KOPUYOR yurt''))"
proof -
  have p: "simple_priority_guess ascii_lower ''WiFi KOPUYOR yurt'' = high" by code_simp
  have c: "simple_category_guess ascii_lower ''WiFi KOPUYOR yurt'' = ''Internet''" by code_simp
  from classification_fallback[of ascii_lower "''WiFi KOPUYOR yurt''"] p c
  show ?thesis by simp
qed

text \<open>
  C9. For an actor allowed to see the report of an existing department (an admin, or a
  department user of that department) and a week that ends within the calendar (a
  \<^verbatim>\<open>week_start\<close> no later than 9999-12-24, or none), the handler answers, with one item per
  support user of the department and the store untouched. In each item the average
  response time is null exactly when no ticket assigned to that user has a first
  response, and the fastest and the slowest resolution time are null exactly when no such
  ticket has a resolution time; an item of a user with no assigned ticket has zero counts
  and three nulls. The minutes are exact rationals here, so the statement is about which
  fields are null, not about the floating-point values.
\<close>

theorem report_null_without_stamps:
  assumes auth: "role u = admin \<or> role u = department \<and> user_department_id u = Some did"
    and dep: "db_get_department db did = Inr (Some d)"
    and week: "case ws of Some w \<Rightarrow> date_min \<le> w \<and> w + 7 \<le> date_max
               | None \<Rightarrow> date_min \<le> date_of now - 7 \<and> date_of now \<le> date_max"
  shows "\<exists>rep. department_report db did ws u now = Inr (rep, db)
       \<and> map support_user_id (supports rep) =
           map user_id (filter (\<lambda>s. role s = support \<and> user_department_id s = Some did)
                          (users db))
       \<and> (\<forall>r\<in>set (supports rep).
            (average_response_minutes r = None \<longleftrightarrow>
               (\<forall>t\<in>set (tickets db). assigned_to_id t = Some (support_user_id r)
                   \<longrightarrow> first_response_at t = None))
          \<and> (fastest_resolution_minutes r = None \<longleftrightarrow>
               (\<forall>t\<in>set (tickets db). assigned_to_id t = Some (support_user_id r)
                   \<longrightarrow> resolved_at t = None))
          \<and> (slowest_resolution_minutes r = None \<longleftrightarrow>
               (\<forall>t\<in>set (tickets db). assigned_to_id t = Some (support_user_id r)
                   \<longrightarrow> resolved_at t = None))
          \<and> ((\<forall>t\<in>set (tickets db). assigned_to_id t \<noteq> Some (support_user_id r)) \<longrightarrow>
               closed_this_week r = 0 \<and> open_assigned r = 0
               \<and> average_response_minutes r = None
               \<and> fastest_resolution_minutes r = None
               \<and> slowest_resolution_minutes r = None))"
proof -
  let ?sd = "case ws of Some w \<Rightarrow> w | None \<Rightarrow> date_of now - 7"
  let ?sups = "filter (\<lambda>s. role s = support \<and> user_department_id s = Some did) (users db)"
  let ?rep = "\<lparr>report_department_id = did, week_start = ?sd, week_end = ?sd + 7,
               supports = map (support_report db ?sd (?sd + 7)) ?sups\<rparr>"
  have e: "department_report db did ws u now = Inr (?rep, db)"
    by (rule department_report_authorized[OF auth dep week])
  have m: "map support_user_id (supports ?rep) = map user_id ?sups"
    by (simp add: support_report_fields(1))
  have i: "\<forall>r\<in>set (supports ?rep).
            (average_response_minutes r = None \<longleftrightarrow>
               (\<forall>t\<in>set (tickets db). assigned_to_id t = Some (support_user_id r)
                   \<longrightarrow> first_response_at t = None))
          \<and> (fastest_resolution_minutes r = None \<longleftrightarrow>
               (\<forall>t\<in>set (tickets db). assigned_to_id t = Some (support_user_id r)
                   \<longrightarrow> resolved_at t = None))
          \<and> (slowest_resolution_minutes r = None \<longleftrightarrow>
               (\<forall>t\<in>set (tickets db). assigned_to_id t = Some (support_user_id r)
                   \<longrightarrow> resolved_at t = None))
          \<and> ((\<forall>t\<in>set (tickets db). assigned_to_id t \<noteq> Some (support_user_id r)) \<longrightarrow>
               closed_this_week r = 0 \<and> open_assigned r = 0
               \<and> average_response_minutes r = None
               \<and> fastest_resolution_minutes r = None
               \<and> slowest_resolution_minutes r = None)"
  proof
    fix r assume "r \<in> set (supports ?rep)"
    then obtain s where r: "r = support_report db ?sd (?sd + 7) s" by auto
    show "(average_response_minutes r = None \<longleftrightarrow>
               (\<forall>t\<in>set (tickets db). assigned_to_id t = Some (support_user_id r)
                   \<longrightarrow> first_response_at t = None))
          \<and> (fastest_resolution_minutes r = None \<longleftrightarrow>
               (\<forall>t\<in>set (tickets db). assigned_to_id t = Some (support_user_id r)
                   \<longrightarrow> resolved_at t = None))
          \<and> (slowest_resolution_minutes r = None \<longleftrightarrow>
               (\<forall>t\<in>set (tickets db). assigned_to_id t = Some (support_user_id r)
                   \<longrightarrow> resolved_at t = None))
          \<and> ((\<forall>t\<in>set (tickets db). assigned_to_id t \<noteq> Some (support_user_id r)) \<longrightarrow>
               closed_this_week r = 0 \<and> open_assigned r = 0
               \<and> average_response_minutes r = None
               \<and> fastest_resolution_minutes r = None
               \<and> slowest_resolution_minutes r = None)"
    proof (intro conjI impI)
      show "average_response_minutes r = None \<longleftrightarrow>
               (\<forall>t\<in>set (tickets db). assigned_to_id t = Some (support_user_id r)
                   \<longrightarrow> first_response_at t = None)"
        unfolding r by (simp add: support_report_fields)
      show "fastest_resolution_minutes r = None \<longleftrightarrow>
               (\<forall>t\<in>set (tickets db). assigned_to_id t = Some (support_user_id r)
                   \<longrightarrow> resolved_at t = None)"
        unfolding r by (simp add: support_report_fields)
      show "slowest_resolution_minutes r = None \<longleftrightarrow>
               (\<forall>t\<in>set (tickets db). assigned_to_id t = Some (support_user_id r)
                   \<longrightarrow> resolved_at t = None)"
        unfolding r by (simp add: support_report_fields)
    next
      assume "\<forall>t\<in>set (tickets db). assigned_to_id t \<noteq> Some (support_user_id r)"
      then have "\<forall>t\<in>set (tickets db). assigned_to_id t \<noteq> Some (user_id s)"
        unfolding r by (simp add: support_report_fields(1))
      note z = support_report_no_tickets[OF this, of ?sd "?sd + 7"]
      show "closed_this_week r = 0" unfolding r by (simp add: z)
      show "open_assigned r = 0" unfolding r by (simp add: z)
      show "average_response_minutes r = None" unfolding r by (simp add: z)
      show "fastest_resolution_minutes r = None" unfolding r by (simp add: z)
      show "slowest_resolution_minutes r = None" unfolding r by (simp add: z)
    qed
  qed
  from e m i show ?thesis by blast
qed

text \<open>
  Department 2 of the sample database has one support user and no assigned ticket: the
  report is one item with zero counts and null times. In department 1 the support user's
  closed ticket was assigned at 1500 and answered at 2000, so the average is not null.
\<close>

theorem report_null_without_stamps_witness:
  "role demo_admin = admin
   \<and> db_get_department demo_db 2 =
       Inr (Some \<lparr>dept_id = 2, dept_name = ''Yapi Isleri'', dept_description = None\<rparr>)
   \<and> date_min \<le> 0 \<and> (0::int) + 7 \<le> date_max
   \<and> department_report demo_db 2 (Some 0) demo_admin 0 =
       Inr (\<lparr>report_department_id = 2, week_start = 0, week_end = 7,
             supports = [\<lparr>support_user_id = 5, support_email = ''support2@test.com'',
                closed_this_week = 0, open_assigned = 0, average_response_minutes = None,
                fastest_resolution_minutes = None, slowest_resolution_minutes = None\<rparr>]\<rparr>,
            demo_db)
   \<and> response (department_report demo_db 1 (Some 0) demo_manager 0) =
       Inr \<lparr>report_department_id = 1, week_start = 0, week_end = 7,
            supports = [\<lparr>support_user_id = 2, support_email = ''support@test.com'',
                closed_this_week = 1, open_assigned = 0,
                average_response_minutes = Some (1 / 120000),
                fastest_resolution_minutes = Some (1 / 40000),
                slowest_resolution_minutes = Some (1 / 40000)\<rparr>]\<rparr>"
proof -
  have a: "role demo_admin = admin \<or> role demo_admin = department
             \<and> user_department_id demo_admin = Some 2"
    by (simp add: demo_admin_def)
  have d: "db_get_department demo_db 2 =
       Inr (Some \<lparr>dept_id = 2, dept_name = ''Yapi Isleri'', dept_description = None\<rparr>)"
    by code_simp
  have w: "case Some (0::int) of Some w \<Rightarrow> date_min \<le> w \<and> w + 7 \<le> date_max
               | None \<Rightarrow> date_min \<le> date_of 0 - 7 \<and> date_of 0 \<le> date_max"
    by (simp add: date_min_def date_max_def)
  have r2: "department_report demo_db 2 (Some 0) demo_admin 0 =
       Inr (\<lparr>report_department_id = 2, week_start = 0, week_end = 7,
             supports = [\<lparr>support_user_id = 5, support_email = ''support2@test.com'',
                closed_this_week = 0, open_assigned = 0, average_response_minutes = None,
                fastest_resolution_minutes = None, slowest_resolution_minutes = None\<rparr>]\<rparr>,
            demo_db)"
    by code_simp
  have r1: "response (department_report demo_db 1 (Some 0) demo_manager 0) =
       Inr \<lparr>report_department_id = 1, week_start = 0, week_end = 7,
            supports = [\<lparr>support_user_id = 2, support_email = ''support@test.com'',
                closed_this_week = 1, open_assigned = 0,
                average_response_minutes = Some (1 / 120000),
                fastest_resolution_minutes = Some (1 / 40000),
                slowest_resolution_minutes = Some (1 / 40000)\<rparr>]\<rparr>"
    by code_simp
  from report_null_without_stamps[OF a d w] a d r2 r1
  show ?thesis by (simp add: demo_admin_def date_min_def date_max_def)
qed

text \<open>
  C10, as the code has it. An assignment that answers changes three columns of the row
  and nothing else: \<^verbatim>\<open>assigned_to_id\<close>, \<^verbatim>\<open>assigned_at\<close> (overwritten with the handler's
  clock reading on every assignment, whatever it held) and \<^verbatim>\<open>updated_at\<close>, which the
  column's \<^verbatim>\<open>onupdate\<close> sets to the flush reading whenever one of the other two changed.
  No other ticket, user, department or comment is touched.
\<close>

theorem assign_ticket_frame:
  assumes t: "db_get_ticket db tid = Inr (Some t)"
    and a: "response (assign_ticket db tid sid u now nd) = Inr t'"
  shows "t' = t\<lparr>assigned_to_id := Some sid, assigned_at := Some now,
                 updated_at := (if assigned_to_id t = Some sid \<and> assigned_at t = Some now
                                then updated_at t else nd)\<rparr>
       \<and> (\<forall>k. db_get_ticket (db_after db (assign_ticket db tid sid u now nd)) k =
               (if k = tid then Inr (Some t') else db_get_ticket db k))
       \<and> users (db_after db (assign_ticket db tid sid u now nd)) = users db
       \<and> departments (db_after db (assign_ticket db tid sid u now nd)) = departments db
       \<and> comments (db_after db (assign_ticket db tid sid u now nd)) = comments db"
proof -
  from a obtain db' where e: "assign_ticket db tid sid u now nd = Inr (t', db')"
    by (auto simp: response_Inr)
  note r = assign_ticket_Inr[OF t e]
  from r have "t' = orm_flush nd t (t\<lparr>assigned_to_id := Some sid, assigned_at := Some now\<rparr>)"
    by simp
  then have "t' = t\<lparr>assigned_to_id := Some sid, assigned_at := Some now,
                 updated_at := (if assigned_to_id t = Some sid \<and> assigned_at t = Some now
                                then updated_at t else nd)\<rparr>"
    by (simp add: orm_flush_def assign_row_unchanged)
  with r e show ?thesis by simp
qed

text \<open>
  Assigning sample ticket 1 at 5000 (flushed at 5001) moves \<^verbatim>\<open>updated_at\<close> from 1000 to
  5001.
\<close>

theorem assign_ticket_updated_at_counterexample:
  "db_get_ticket demo_db 1 = Inr (Some demo_ticket)
   \<and> updated_at demo_ticket = 1000
   \<and> response (assign_ticket demo_db 1 2 demo_admin 5000 5001) =
       Inr (demo_ticket\<lparr>assigned_to_id := Some 2, updated_at := 5001,
                         assigned_at := Some 5000\<rparr>)
   \<and> updated_at (demo_ticket\<lparr>assigned_to_id := Some 2, updated_at := 5001,
                   assigned_at := Some 5000\<rparr>) = 5001"
proof -
  have r: "response (assign_ticket demo_db 1 2 demo_admin 5000 5001) =
       Inr (demo_ticket\<lparr>assigned_to_id := Some 2, updated_at := 5001,
                         assigned_at := Some 5000\<rparr>)"
    by code_simp
  with demo_get1 show ?thesis by (simp add: demo_ticket_def)
qed

text \<open>
  Re-assigning the closed sample ticket to the same support user at 6000: \<^verbatim>\<open>assigned_at\<close>
  moves from 1500 to 6000.
\<close>

theorem assign_ticket_frame_witness:
  "db_get_ticket demo_db 2 = Inr (Some demo_closed_ticket)
   \<and> assigned_at demo_closed_ticket = Some 1500
   \<and> response (assign_ticket demo_db 2 2 demo_manager 6000 6001) =
       Inr (demo_closed_ticket\<lparr>assigned_to_id := Some 2, assigned_at := Some 6000,
                                updated_at := 6001\<rparr>)
   \<and> db_get_ticket (db_after demo_db (assign_ticket demo_db 2 2 demo_manager 6000 6001)) 1 =
       Inr (Some demo_ticket)"
proof -
  have r: "response (assign_ticket demo_db 2 2 demo_manager 6000 6001) =
       Inr (demo_closed_ticket\<lparr>assigned_to_id := Some 2, assigned_at := Some 6000,
                                updated_at := 6001\<rparr>)"
    by code_simp
  from assign_ticket_frame[OF demo_get2 r] demo_get1 demo_get2 r
  show ?thesis by (simp add: demo_closed_ticket_def)
qed

end
